theory Spec2Isabelle
  imports Main "HOL-Library.Multiset" "HOL-Library.AList"
begin

section \<open>JavaScript values and errors\<close>

text \<open>
  The values that \<^verbatim>\<open>JSON.parse\<close> and property access produce. Objects keep their entries
  in insertion order, as JavaScript does; an object that comes from \<^verbatim>\<open>JSON.parse\<close> has
  pairwise distinct keys. Numbers are restricted to integers (block numbers).
  \<open>JUndefined\<close> is what reading a missing property yields.
\<close>

datatype json =
    JUndefined
  | JNull
  | JBool bool
  | JNum int
  | JStr string
  | JArr "json list"
  | JObj "(string \<times> json) list"

text \<open>
  What a \<^verbatim>\<open>throw\<close> carries. \<open>Thrown code err\<close> is an error object of the upstream
  provider: \<open>code\<close> is \<^verbatim>\<open>err.code\<close> and \<open>err\<close> is \<^verbatim>\<open>err.error\<close> (absent when falsy),
  holding \<^verbatim>\<open>err.error.message\<close> when that is a string.
\<close>

datatype js_error =
    TypeError
  | AssertionError
  | SyntaxError
  | Thrown "string option" "string option option"

text \<open>
  Property access \<^verbatim>\<open>v.k\<close> for a key that is neither an index nor the length
  (the keys read below are meta, parent, the slash key of an IPLD link, state and id):
  reading from \<^verbatim>\<open>undefined\<close> or \<^verbatim>\<open>null\<close> throws, an object yields its entry or
  \<^verbatim>\<open>undefined\<close>, every other value yields \<^verbatim>\<open>undefined\<close>.
\<close>

fun js_get :: "json \<Rightarrow> string \<Rightarrow> js_error + json" where
  "js_get JUndefined k = Inl TypeError"
| "js_get JNull k = Inl TypeError"
| "js_get (JObj kvs) k = Inr (case map_of kvs k of None \<Rightarrow> JUndefined | Some v \<Rightarrow> v)"
| "js_get (JBool b) k = Inr JUndefined"
| "js_get (JNum n) k = Inr JUndefined"
| "js_get (JStr s) k = Inr JUndefined"
| "js_get (JArr xs) k = Inr JUndefined"

text \<open>JavaScript truthiness of a value.\<close>

fun truthy :: "json \<Rightarrow> bool" where
  "truthy JUndefined = False"
| "truthy JNull = False"
| "truthy (JBool b) = b"
| "truthy (JNum n) = (n \<noteq> 0)"
| "truthy (JStr s) = (s \<noteq> [])"
| "truthy (JArr xs) = True"
| "truthy (JObj kvs) = True"

text \<open>
  Deep equality as \<^verbatim>\<open>json-diff\<close> decides it: scalars by \<^verbatim>\<open>===\<close>, arrays element by
  element, objects by their key sets and the values under each key, whatever the order
  of the keys.
\<close>

primrec json_equal :: "json \<Rightarrow> json \<Rightarrow> bool" where
  "json_equal JUndefined b = (b = JUndefined)"
| "json_equal JNull b = (b = JNull)"
| "json_equal (JBool x) b = (b = JBool x)"
| "json_equal (JNum n) b = (b = JNum n)"
| "json_equal (JStr s) b = (b = JStr s)"
| "json_equal (JArr xs) b =
     (case b of
        JArr ys \<Rightarrow> list_all2 (\<lambda>eq y. eq y) (map json_equal xs) ys
      | _ \<Rightarrow> False)"
| "json_equal (JObj kvs) b =
     (case b of
        JObj kws \<Rightarrow>
          set (map fst kvs) = set (map fst kws) \<and>
          list_all (\<lambda>(k, eq). case map_of kws k of Some w \<Rightarrow> eq w | None \<Rightarrow> False)
            (map (map_prod (\<lambda>k. k) json_equal) kvs)
      | _ \<Rightarrow> False)"

text \<open>
  A value whose objects have pairwise distinct keys, at every depth, as every value
  that \<^verbatim>\<open>JSON.parse\<close> returns has.
\<close>

primrec distinct_keys :: "json \<Rightarrow> bool" where
  "distinct_keys JUndefined = True"
| "distinct_keys JNull = True"
| "distinct_keys (JBool b) = True"
| "distinct_keys (JNum n) = True"
| "distinct_keys (JStr s) = True"
| "distinct_keys (JArr xs) = list_all (\<lambda>b. b) (map distinct_keys xs)"
| "distinct_keys (JObj kvs) =
     (distinct (map fst kvs) \<and> list_all snd (map (map_prod (\<lambda>k. k) distinct_keys) kvs))"

section \<open>The state verifier: \<^verbatim>\<open>checkIPLDMetaData\<close>\<close>

text \<open>
  \<^verbatim>\<open>compareObjects(obj1, obj2, rawJson)\<close> returns the text \<^verbatim>\<open>json-diff\<close> renders, which is
  empty exactly when the two values are deeply equal, for either setting of
  \<^verbatim>\<open>rawJson\<close>. The model keeps whether the text is non-empty.
\<close>

definition compareObjects :: "json \<Rightarrow> json \<Rightarrow> bool \<Rightarrow> bool" where
  "compareObjects obj1 obj2 rawJson = (\<not> json_equal obj1 obj2)"

text \<open>The \<^verbatim>\<open>block { cid number hash }\<close> part of a \<^verbatim>\<open>getState\<close> result.\<close>

record block_ref =
  block_cid :: string
  block_number :: int
  block_hash :: string

text \<open>
  One \<^verbatim>\<open>getState\<close> result. \<open>data\<close> is the outcome of \<^verbatim>\<open>JSON.parse(contractIPLD.data)\<close>:
  \<open>None\<close> when the text does not parse.
\<close>

record contractIPLD =
  block :: block_ref
  contractAddress :: string
  cid :: string
  kind :: string
  data :: "json option"

text \<open>The entry of \<^verbatim>\<open>contractLatestStateCIDMap\<close> for one contract.\<close>

record parentCIDs =
  diff :: string
  checkpoint :: string

type_synonym cid_map = "string \<rightharpoonup> parentCIDs"

text \<open>The expected parent CID, from the tracked CIDs and the parent the record claims.\<close>

definition expectedParentCID :: "parentCIDs \<Rightarrow> json \<Rightarrow> json" where
  "expectedParentCID parentCIDs actualParentCID =
     (if diff parentCIDs = [] then actualParentCID
      else if checkpoint parentCIDs \<noteq> [] \<and> actualParentCID = JStr (checkpoint parentCIDs)
           then JStr (checkpoint parentCIDs)
           else JStr (diff parentCIDs))"

definition expectedMetaData :: "contractIPLD \<Rightarrow> json \<Rightarrow> json" where
  "expectedMetaData contractIPLD parentCID =
     JObj [(''id'', JStr (contractAddress contractIPLD)),
           (''kind'', JStr (kind contractIPLD)),
           (''parent'', JObj [(''/'', parentCID)]),
           (''ethBlock'',
              JObj [(''cid'', JObj [(''/'', JStr (block_cid (block contractIPLD)))]),
                    (''num'', JNum (block_number (block contractIPLD)))])]"

text \<open>
  \<^verbatim>\<open>checkIPLDMetaData(contractIPLD, contractLatestStateCIDMap, rawJson)\<close>. The map is
  mutated in place, so the model returns it; it is already updated when a later step
  throws. The result is \<open>None\<close> for the two early returns and otherwise whether the
  returned diff is non-empty.
\<close>

definition checkIPLDMetaData ::
  "contractIPLD option \<Rightarrow> cid_map \<Rightarrow> bool \<Rightarrow> (js_error + bool option) \<times> cid_map" where
  "checkIPLDMetaData contractIPLD contractLatestStateCIDMap rawJson =
     (case contractIPLD of
        None \<Rightarrow> (Inr None, contractLatestStateCIDMap)
      | Some r \<Rightarrow>
          (case contractLatestStateCIDMap (contractAddress r) of
             None \<Rightarrow> (Inl AssertionError, contractLatestStateCIDMap)
           | Some parentCIDs \<Rightarrow>
               if cid r = diff parentCIDs \<or> cid r = checkpoint parentCIDs
               then (Inr None, contractLatestStateCIDMap)
               else
                 let nextParentCIDs =
                       (if kind r = ''checkpoint''
                        then \<lparr>diff = diff parentCIDs, checkpoint = cid r\<rparr>
                        else \<lparr>diff = cid r, checkpoint = []\<rparr>);
                     m' = contractLatestStateCIDMap(contractAddress r \<mapsto> nextParentCIDs)
                 in (case data r of
                       None \<Rightarrow> (Inl SyntaxError, m')
                     | Some d \<Rightarrow>
                         (case js_get d ''meta'' of
                            Inl e \<Rightarrow> (Inl e, m')
                          | Inr meta \<Rightarrow>
                              (case js_get meta ''parent'' of
                                 Inl e \<Rightarrow> (Inl e, m')
                               | Inr parent \<Rightarrow>
                                   (case js_get parent ''/'' of
                                      Inl e \<Rightarrow> (Inl e, m')
                                    | Inr actualParentCID \<Rightarrow>
                                        (Inr (Some (compareObjects
                                            (expectedMetaData r
                                               (expectedParentCID parentCIDs actualParentCID))
                                            meta rawJson)), m')))))))"

text \<open>
  A well-shaped \<^verbatim>\<open>data.meta\<close>: the four keys the verifier expects, with the claimed
  parent CID \<open>p\<close> under the IPLD link key.
\<close>

definition metaData :: "string \<Rightarrow> string \<Rightarrow> string \<Rightarrow> string \<Rightarrow> int \<Rightarrow> json" where
  "metaData a k p c n =
     JObj [(''id'', JStr a),
           (''kind'', JStr k),
           (''parent'', JObj [(''/'', JStr p)]),
           (''ethBlock'', JObj [(''cid'', JObj [(''/'', JStr c)]), (''num'', JNum n)])]"

text \<open>
  The same meta data with any value in the place of the parent: a link holding
  something else than a string, a bare string, an object without the link key.
\<close>

definition metaDataWith :: "string \<Rightarrow> string \<Rightarrow> json \<Rightarrow> string \<Rightarrow> int \<Rightarrow> json" where
  "metaDataWith a k parent c n =
     JObj [(''id'', JStr a),
           (''kind'', JStr k),
           (''parent'', parent),
           (''ethBlock'', JObj [(''cid'', JObj [(''/'', JStr c)]), (''num'', JNum n)])]"

text \<open>
  The parenting rule in the words of the specification, over what the verifier tracks
  for a contract. The tracked checkpoint CID is reset to the empty string by every
  record that is not a checkpoint, so a non-empty tracked checkpoint is newer than the
  tracked diff: the immediately previous record is the checkpoint when one is tracked
  and the diff otherwise. A record that is not an init violates the rule when the
  parent it claims is not the CID of that previous record.
\<close>

definition spec_previous_cid :: "parentCIDs \<Rightarrow> string" where
  "spec_previous_cid pc = (if checkpoint pc \<noteq> [] then checkpoint pc else diff pc)"

definition spec_violates_parenting :: "parentCIDs \<Rightarrow> string \<Rightarrow> string \<Rightarrow> bool" where
  "spec_violates_parenting pc k p = (k \<noteq> ''init'' \<and> p \<noteq> spec_previous_cid pc)"

section \<open>Code generation: \<^verbatim>\<open>Database.addQuery\<close> and \<^verbatim>\<open>Client.addQuery\<close>\<close>

text \<open>
  String helpers of JavaScript, over strings of ASCII characters (query names are
  Solidity identifiers): \<^verbatim>\<open>s.charAt(i)\<close> is the one-character string at index \<open>i\<close>
  or the empty string, \<^verbatim>\<open>s.slice(n)\<close> drops the first \<open>n\<close> characters, and
  \<^verbatim>\<open>toUpperCase\<close> maps the letters a to z to A to Z.
\<close>

definition charAt :: "nat \<Rightarrow> string \<Rightarrow> string" where
  "charAt i s = (if i < length s then [s ! i] else [])"

definition slice :: "nat \<Rightarrow> string \<Rightarrow> string" where
  "slice n s = drop n s"

definition upper_char :: "char \<Rightarrow> char" where
  "upper_char c =
     (let n = (of_char c :: nat)
      in if 97 \<le> n \<and> n \<le> 122 then char_of (n - 32) else c)"

definition toUpperCase :: "string \<Rightarrow> string" where
  "toUpperCase s = map upper_char s"

text \<open>A query parameter (\<^verbatim>\<open>Param\<close>): its name and its type.\<close>

record Param =
  param_name :: string
  param_type :: string

text \<open>
  The callback of \<^verbatim>\<open>queryObject.params.map\<close>: the Solidity type is mapped to a GraphQL
  type and that to a TypeScript type; each \<^verbatim>\<open>assert\<close> fails on \<^verbatim>\<open>undefined\<close> and on
  the empty string. The two type tables (\<^verbatim>\<open>getGqlForSol\<close>, \<^verbatim>\<open>getTsForGql\<close> of
  \<^verbatim>\<open>utils/type-mappings\<close>) are parameters.
\<close>

definition convertParam ::
  "(string \<Rightarrow> string option) \<Rightarrow> (string \<Rightarrow> string option) \<Rightarrow> Param \<Rightarrow> js_error + Param" where
  "convertParam getGqlForSol getTsForGql param =
     (case getGqlForSol (param_type param) of
        None \<Rightarrow> Inl AssertionError
      | Some gqlParamType \<Rightarrow>
          if gqlParamType = [] then Inl AssertionError
          else (case getTsForGql gqlParamType of
                  None \<Rightarrow> Inl AssertionError
                | Some tsParamType \<Rightarrow>
                    if tsParamType = [] then Inl AssertionError
                    else Inr (param\<lparr>param_type := tsParamType\<rparr>)))"

text \<open>\<^verbatim>\<open>Array.prototype.map\<close> with a callback that may throw: the first throw ends it.\<close>

fun map_throwing :: "('a \<Rightarrow> js_error + 'b) \<Rightarrow> 'a list \<Rightarrow> js_error + 'b list" where
  "map_throwing f [] = Inr []"
| "map_throwing f (x # xs) =
     (case f x of
        Inl e \<Rightarrow> Inl e
      | Inr y \<Rightarrow> (case map_throwing f xs of Inl e \<Rightarrow> Inl e | Inr ys \<Rightarrow> Inr (y # ys)))"

text \<open>
  The query object of \<^verbatim>\<open>Database\<close>; \<open>'v\<close> stands for the parser's
  \<^verbatim>\<open>VariableDeclaration\<close>.
\<close>

record 'v db_query =
  dq_name :: string
  dq_entityName :: string
  dq_getQueryName :: string
  dq_saveQueryName :: string
  dq_params :: "Param list"
  dq_returnParameters :: "'v list"

record 'v Database =
  db_queries :: "'v db_query list"
  db_subgraphEntities :: "string list"
  db_templateString :: string

text \<open>
  \<^verbatim>\<open>Database.addQuery(name, params, returnParameters)\<close>. A failed assertion leaves the
  object as it was: the push comes last.
\<close>

definition Database_addQuery ::
  "(string \<Rightarrow> string option) \<Rightarrow> (string \<Rightarrow> string option) \<Rightarrow>
   string \<Rightarrow> Param list \<Rightarrow> 'v list \<Rightarrow> 'v Database \<Rightarrow> js_error + 'v Database" where
  "Database_addQuery getGqlForSol getTsForGql name params returnParameters db =
     (if \<exists>query \<in> set (db_queries db). dq_name query = name then Inr db
      else
        let queryObject =
              (if charAt 0 name = ''_''
               then let capitalizedName = toUpperCase (charAt 1 name) @ slice 2 name
                    in \<lparr>dq_name = name,
                        dq_entityName = ''_'' @ capitalizedName,
                        dq_getQueryName = ''_get'' @ capitalizedName,
                        dq_saveQueryName = ''_save'' @ capitalizedName,
                        dq_params = params,
                        dq_returnParameters = returnParameters\<rparr>
               else let capitalizedName = toUpperCase (charAt 0 name) @ slice 1 name
                    in \<lparr>dq_name = name,
                        dq_entityName = capitalizedName,
                        dq_getQueryName = ''get'' @ capitalizedName,
                        dq_saveQueryName = ''save'' @ capitalizedName,
                        dq_params = params,
                        dq_returnParameters = returnParameters\<rparr>)
        in (case map_throwing (convertParam getGqlForSol getTsForGql) (dq_params queryObject) of
              Inl e \<Rightarrow> Inl e
            | Inr params' \<Rightarrow>
                Inr (db\<lparr>db_queries := db_queries db @ [queryObject\<lparr>dq_params := params'\<rparr>]\<rparr>)))"

text \<open>The query object and the state of the codegen \<^verbatim>\<open>Client\<close>.\<close>

record cl_query =
  cq_name :: string
  cq_getQueryName :: string
  cq_params :: "Param list"

record Client =
  cl_queries :: "cl_query list"
  cl_templateString :: string

definition Client_addQuery ::
  "(string \<Rightarrow> string option) \<Rightarrow> (string \<Rightarrow> string option) \<Rightarrow>
   string \<Rightarrow> Param list \<Rightarrow> Client \<Rightarrow> js_error + Client" where
  "Client_addQuery getGqlForSol getTsForGql name params cl =
     (if \<exists>query \<in> set (cl_queries cl). cq_name query = name then Inr cl
      else
        let queryObject =
              \<lparr>cq_name = name,
               cq_getQueryName =
                 (if charAt 0 name = ''_''
                  then ''_get'' @ toUpperCase (charAt 1 name) @ slice 2 name
                  else ''get'' @ toUpperCase (charAt 0 name) @ slice 1 name),
               cq_params = params\<rparr>
        in (case map_throwing (convertParam getGqlForSol getTsForGql) (cq_params queryObject) of
              Inl e \<Rightarrow> Inl e
            | Inr params' \<Rightarrow>
                Inr (cl\<lparr>cl_queries := cl_queries cl @ [queryObject\<lparr>cq_params := params'\<rparr>]\<rparr>)))"

section \<open>The chain client: \<^verbatim>\<open>EthClient\<close>\<close>

subsection \<open>The upstream provider and the cache\<close>

text \<open>A log as the provider returns it, and a transaction receipt.\<close>

record log =
  log_blockNumber :: nat
  log_address :: string
  log_transactionHash :: string
  log_topics :: "string list"
  log_data :: string
  log_logIndex :: nat

record receipt =
  rc_transactionHash :: string
  rc_status :: "int option"

text \<open>
  The filter of \<^verbatim>\<open>provider.getLogs\<close>. The bounds are numbers made with \<^verbatim>\<open>Number\<close> (\<open>None\<close>
  is \<^verbatim>\<open>NaN\<close>); \<open>f_address\<close> is absent in the unfiltered call.
\<close>

record log_filter =
  fromBlock :: "int option"
  toBlock :: "int option"
  f_address :: "string option"

datatype rpc_param = PString string | PBool bool

text \<open>The block as \<^verbatim>\<open>formatter.block\<close> returns it (the fields that are read).\<close>

record formatted_block =
  fb_number :: int
  fb_hash :: string
  fb_parentHash :: string
  fb_timestamp :: int

text \<open>
  The upstream JSON-RPC provider with its formatter: what each call answers. A call
  either resolves or rejects with an error. \<^verbatim>\<open>send\<close> resolves to the raw block, which is
  \<^verbatim>\<open>null\<close> for an unknown block.
\<close>

record provider =
  send :: "string \<Rightarrow> rpc_param list \<Rightarrow> js_error + json"
  p_getStorageAt :: "string \<Rightarrow> string \<Rightarrow> string \<Rightarrow> js_error + string"
  p_getLogs :: "log_filter \<Rightarrow> js_error + log list"
  p_getTransactionReceipt :: "string \<Rightarrow> js_error + receipt option"
  formatter_block :: "json \<Rightarrow> js_error + formatted_block"
  formatter_hash :: "json \<Rightarrow> js_error + string"
  formatter_bigNumber :: "json \<Rightarrow> js_error + int"
  formatter_number :: "json \<Rightarrow> js_error + int"
  formatter_hex :: "json \<Rightarrow> js_error + string"

text \<open>The requests that reach the upstream provider, in the order they are made.\<close>

datatype request =
    ReqSend string "rpc_param list"
  | ReqGetStorageAt string string string
  | ReqGetLogs log_filter
  | ReqGetTransactionReceipt string

text \<open>
  The \<^verbatim>\<open>Vars\<close> of a cached query; every property is optional, and the block number is
  text.
\<close>

record Vars =
  v_blockHash :: "string option"
  v_blockNumber :: "string option"
  v_contract :: "string option"
  v_slot :: "string option"
  v_addresses :: "string list option"

text \<open>What the cache holds: a storage value or the logs of a block.\<close>

datatype cached = CachedStorage string | CachedLogs "log list"

text \<open>
  The state around a client: the cache (absent when not configured), keyed by query
  name and variables, and the requests made upstream so far.
\<close>

record eth_state =
  cache :: "(string \<times> Vars \<rightharpoonup> cached) option"
  requests :: "request list"

text \<open>
  Functions of other packages and of the language that the client calls; they are
  parameters of the model. \<open>stringToBigInt\<close> and \<open>stringToNumber\<close> read the text of a
  number as \<^verbatim>\<open>BigInt\<close> and \<^verbatim>\<open>Number\<close> do (\<open>None\<close> where \<^verbatim>\<open>BigInt\<close> throws a
  \<^verbatim>\<open>SyntaxError\<close> and where \<^verbatim>\<open>Number\<close> yields \<^verbatim>\<open>NaN\<close>), and \<open>toPrimitiveString\<close> is the text
  that an array or an object is turned into before it is read.
\<close>

datatype header_value = HJson json | HBigInt int | HNumber "int option"

record externals =
  hexValue :: "nat \<Rightarrow> string"
  padKey :: "string \<Rightarrow> string"
  encodeHeader :: "(string \<times> header_value) list \<Rightarrow> string"
  escapeHexString :: "string \<Rightarrow> string"
  stringToBigInt :: "string \<Rightarrow> int option"
  stringToNumber :: "string \<Rightarrow> int option"
  toPrimitiveString :: "json \<Rightarrow> string"

text \<open>
  \<^verbatim>\<open>BigInt(v)\<close>: \<^verbatim>\<open>undefined\<close> and \<^verbatim>\<open>null\<close> cannot be converted and throw a \<^verbatim>\<open>TypeError\<close>, a
  boolean is 0 or 1, an integer is itself, and text is read, with a \<^verbatim>\<open>SyntaxError\<close> when
  it is not the text of an integer.
\<close>

definition js_BigInt :: "externals \<Rightarrow> json \<Rightarrow> js_error + int" where
  "js_BigInt ext v =
     (case v of
        JUndefined \<Rightarrow> Inl TypeError
      | JNull \<Rightarrow> Inl TypeError
      | JBool b \<Rightarrow> Inr (if b then 1 else 0)
      | JNum n \<Rightarrow> Inr n
      | JStr s \<Rightarrow>
          (case stringToBigInt ext s of None \<Rightarrow> Inl SyntaxError | Some n \<Rightarrow> Inr n)
      | _ \<Rightarrow>
          (case stringToBigInt ext (toPrimitiveString ext v) of
             None \<Rightarrow> Inl SyntaxError
           | Some n \<Rightarrow> Inr n))"

text \<open>
  \<^verbatim>\<open>Number(v)\<close>, with \<open>None\<close> for \<^verbatim>\<open>NaN\<close>: \<^verbatim>\<open>undefined\<close> is \<^verbatim>\<open>NaN\<close>, \<^verbatim>\<open>null\<close> is 0, and it
  never throws on a value of JSON.
\<close>

definition js_Number :: "externals \<Rightarrow> json \<Rightarrow> int option" where
  "js_Number ext v =
     (case v of
        JUndefined \<Rightarrow> None
      | JNull \<Rightarrow> Some 0
      | JBool b \<Rightarrow> Some (if b then 1 else 0)
      | JNum n \<Rightarrow> Some n
      | JStr s \<Rightarrow> stringToNumber ext s
      | _ \<Rightarrow> stringToNumber ext (toPrimitiveString ext v))"

subsection \<open>\<^verbatim>\<open>_getCachedOrFetch\<close>\<close>

definition getCachedOrFetch ::
  "string \<Rightarrow> Vars \<Rightarrow> (eth_state \<Rightarrow> (js_error + cached) \<times> eth_state) \<Rightarrow>
   eth_state \<Rightarrow> (js_error + cached) \<times> eth_state" where
  "getCachedOrFetch queryName vars fetch st =
     (let keyObj = (queryName, vars);
          found = (case cache st of None \<Rightarrow> None | Some c \<Rightarrow> c keyObj)
      in case found of
           Some v \<Rightarrow> (Inr v, st)
         | None \<Rightarrow>
             (case fetch st of
                (Inl e, st') \<Rightarrow> (Inl e, st')
              | (Inr result, st') \<Rightarrow>
                  (Inr result,
                   case cache st' of
                     None \<Rightarrow> st'
                   | Some c \<Rightarrow> st'\<lparr>cache := Some (c(keyObj \<mapsto> result))\<rparr>)))"

subsection \<open>\<^verbatim>\<open>getStorageAt\<close>\<close>

record storage_result =
  sr_value :: cached
  sr_proof_data :: string

text \<open>The variables \<^verbatim>\<open>{ blockHash, contract, slot }\<close> that key a storage read.\<close>

definition storage_vars :: "string \<Rightarrow> string \<Rightarrow> string \<Rightarrow> Vars" where
  "storage_vars blockHash contract slot =
     \<lparr>v_blockHash = Some blockHash, v_blockNumber = None, v_contract = Some contract,
      v_slot = Some slot, v_addresses = None\<rparr>"

definition getStorageAt ::
  "externals \<Rightarrow> provider \<Rightarrow> string \<Rightarrow> string \<Rightarrow> string \<Rightarrow>
   eth_state \<Rightarrow> (js_error + storage_result) \<times> eth_state" where
  "getStorageAt ext p blockHash contract slot st =
     (let slot' = ''0x'' @ padKey ext slot
      in case getCachedOrFetch ''getStorageAt'' (storage_vars blockHash contract slot')
                (\<lambda>s. (map_sum (\<lambda>e. e) CachedStorage (p_getStorageAt p contract slot' blockHash),
                       s\<lparr>requests := requests s @ [ReqGetStorageAt contract slot' blockHash]\<rparr>))
                st of
           (Inl e, st') \<Rightarrow> (Inl e, st')
         | (Inr v, st') \<Rightarrow> (Inr \<lparr>sr_value = v, sr_proof_data = ''null''\<rparr>, st'))"

subsection \<open>\<^verbatim>\<open>getBlocks\<close>\<close>

text \<open>
  A node of the result. Where the source renders a number as decimal text with
  \<^verbatim>\<open>toString()\<close>, the node keeps the number.
\<close>

record block_node =
  bn_blockNumber :: int
  bn_blockHash :: string
  bn_parentHash :: string
  bn_timestamp :: int
  bn_stateRoot :: string
  bn_td :: int
  bn_txRoot :: string
  bn_receiptRoot :: string

text \<open>\<^verbatim>\<open>errors.SERVER_ERROR\<close> of ethers and the message of the future-epoch rejection.\<close>

definition SERVER_ERROR :: string where
  "SERVER_ERROR = ''SERVER_ERROR''"

definition future_epoch_message :: string where
  "future_epoch_message = ''requested a future epoch (beyond '' @ [CHR 0x27] @ ''latest'' @ [CHR 0x27] @ '')''"

text \<open>The test of the \<^verbatim>\<open>catch\<close> block: is the error the one that is ignored?\<close>

fun is_future_block_error :: "js_error \<Rightarrow> bool" where
  "is_future_block_error (Thrown code err) =
     (code = Some SERVER_ERROR \<and> err = Some (Some future_epoch_message))"
| "is_future_block_error _ = False"

text \<open>
  The head shared by \<^verbatim>\<open>getBlocks\<close> and \<^verbatim>\<open>getFullBlocks\<close>: the block tag that is sent
  (\<open>None\<close> when the assertion fails) and the RPC method.
\<close>

definition blockHashOrBlockNumber :: "externals \<Rightarrow> nat option \<Rightarrow> string option \<Rightarrow> string option" where
  "blockHashOrBlockNumber ext blockNumber blockHash =
     (let blockNumberHex =
            (case blockNumber of
               None \<Rightarrow> None
             | Some n \<Rightarrow> if n \<noteq> 0 then Some (hexValue ext n) else None)
      in case blockHash of Some h \<Rightarrow> Some h | None \<Rightarrow> blockNumberHex)"

definition rpc_method :: "string option \<Rightarrow> string" where
  "rpc_method blockHash =
     (if blockHash \<noteq> None \<and> blockHash \<noteq> Some [] then ''eth_getBlockByHash''
      else ''eth_getBlockByNumber'')"

text \<open>The node built inside the \<^verbatim>\<open>try\<close> block; the formatter may throw.\<close>

definition format_block_node :: "provider \<Rightarrow> json \<Rightarrow> js_error + block_node" where
  "format_block_node p rawBlock =
     (case formatter_block p rawBlock of
        Inl e \<Rightarrow> Inl e
      | Inr b \<Rightarrow>
     (case js_get rawBlock ''stateRoot'' of Inl e \<Rightarrow> Inl e | Inr v1 \<Rightarrow>
     (case formatter_hash p v1 of Inl e \<Rightarrow> Inl e | Inr stateRoot \<Rightarrow>
     (case js_get rawBlock ''totalDifficulty'' of Inl e \<Rightarrow> Inl e | Inr v2 \<Rightarrow>
     (case formatter_bigNumber p v2 of Inl e \<Rightarrow> Inl e | Inr td \<Rightarrow>
     (case js_get rawBlock ''transactionsRoot'' of Inl e \<Rightarrow> Inl e | Inr v3 \<Rightarrow>
     (case formatter_hash p v3 of Inl e \<Rightarrow> Inl e | Inr txRoot \<Rightarrow>
     (case js_get rawBlock ''receiptsRoot'' of Inl e \<Rightarrow> Inl e | Inr v4 \<Rightarrow>
     (case formatter_hash p v4 of Inl e \<Rightarrow> Inl e | Inr receiptRoot \<Rightarrow>
        Inr \<lparr>bn_blockNumber = fb_number b, bn_blockHash = fb_hash b,
             bn_parentHash = fb_parentHash b, bn_timestamp = fb_timestamp b,
             bn_stateRoot = stateRoot, bn_td = td, bn_txRoot = txRoot,
             bn_receiptRoot = receiptRoot\<rparr>)))))))))"

definition getBlocks ::
  "externals \<Rightarrow> provider \<Rightarrow> nat option \<Rightarrow> string option \<Rightarrow>
   eth_state \<Rightarrow> (js_error + block_node list) \<times> eth_state" where
  "getBlocks ext p blockNumber blockHash st =
     (case blockHashOrBlockNumber ext blockNumber blockHash of
        None \<Rightarrow> (Inl AssertionError, st)
      | Some tag \<Rightarrow>
          if tag = [] then (Inl AssertionError, st)
          else
            let params = [PString tag, PBool False];
                st' = st\<lparr>requests := requests st @ [ReqSend (rpc_method blockHash) params]\<rparr>;
                attempt =
                  (case send p (rpc_method blockHash) params of
                     Inl err \<Rightarrow> Inl err
                   | Inr rawBlock \<Rightarrow>
                       if truthy rawBlock
                       then map_sum (\<lambda>e. e) (\<lambda>n. [n]) (format_block_node p rawBlock)
                       else Inr [])
            in (case attempt of
                  Inl err \<Rightarrow> if \<not> is_future_block_error err then (Inl err, st') else (Inr [], st')
                | Inr nodes \<Rightarrow> (Inr nodes, st')))"

subsection \<open>\<^verbatim>\<open>getFullBlocks\<close>\<close>

text \<open>The value that reading the property \<open>k\<close> of an object with the entries \<open>kvs\<close> yields.\<close>

definition field_of :: "(string \<times> json) list \<Rightarrow> string \<Rightarrow> json" where
  "field_of kvs k = (case map_of kvs k of None \<Rightarrow> JUndefined | Some v \<Rightarrow> v)"

text \<open>Sequencing of steps that may throw.\<close>

definition bnd :: "js_error + 'a \<Rightarrow> ('a \<Rightarrow> js_error + 'b) \<Rightarrow> js_error + 'b" where
  "bnd r f = (case r of Inl e \<Rightarrow> Inl e | Inr x \<Rightarrow> f x)"

text \<open>
  The \<^verbatim>\<open>header\<close> object literal: its properties are evaluated in the order they are
  written, each from a field of the raw block, and the object keeps that order.
\<close>

definition blockHeader :: "externals \<Rightarrow> json \<Rightarrow> js_error + (string \<times> header_value) list" where
  "blockHeader ext rawBlock =
     bnd (js_get rawBlock ''parentHash'') (\<lambda>parentHash.
     bnd (js_get rawBlock ''sha3Uncles'') (\<lambda>sha3Uncles.
     bnd (js_get rawBlock ''miner'') (\<lambda>miner.
     bnd (js_get rawBlock ''stateRoot'') (\<lambda>stateRoot.
     bnd (js_get rawBlock ''transactionsRoot'') (\<lambda>transactionsRoot.
     bnd (js_get rawBlock ''receiptsRoot'') (\<lambda>receiptsRoot.
     bnd (js_get rawBlock ''logsBloom'') (\<lambda>logsBloom.
     bnd (js_get rawBlock ''difficulty'') (\<lambda>v1. bnd (js_BigInt ext v1) (\<lambda>difficulty.
     bnd (js_get rawBlock ''number'') (\<lambda>v2. bnd (js_BigInt ext v2) (\<lambda>number.
     bnd (js_get rawBlock ''gasLimit'') (\<lambda>v3. bnd (js_BigInt ext v3) (\<lambda>gasLimit.
     bnd (js_get rawBlock ''gasUsed'') (\<lambda>v4. bnd (js_BigInt ext v4) (\<lambda>gasUsed.
     bnd (js_get rawBlock ''timestamp'') (\<lambda>timestamp.
     bnd (js_get rawBlock ''extraData'') (\<lambda>extraData.
     bnd (js_get rawBlock ''mixHash'') (\<lambda>mixHash.
     bnd (js_get rawBlock ''nonce'') (\<lambda>v5. bnd (js_BigInt ext v5) (\<lambda>nonce.
     bnd (js_get rawBlock ''baseFeePerGas'') (\<lambda>v6. bnd (js_BigInt ext v6) (\<lambda>baseFeePerGas.
       Inr [(''Parent'', HJson parentHash),
            (''UnclesDigest'', HJson sha3Uncles),
            (''Beneficiary'', HJson miner),
            (''StateRoot'', HJson stateRoot),
            (''TxRoot'', HJson transactionsRoot),
            (''RctRoot'', HJson receiptsRoot),
            (''Bloom'', HJson logsBloom),
            (''Difficulty'', HBigInt difficulty),
            (''Number'', HBigInt number),
            (''GasLimit'', HBigInt gasLimit),
            (''GasUsed'', HBigInt gasUsed),
            (''Time'', HNumber (js_Number ext timestamp)),
            (''Extra'', HJson extraData),
            (''MixDigest'', HJson mixHash),
            (''Nonce'', HBigInt nonce),
            (''BaseFee'', HBigInt baseFeePerGas)]))))))))))))))))))))))"

record full_block_node =
  fn_blockNumber :: int
  fn_blockHash :: string
  fn_parentHash :: string
  fn_timestamp :: int
  fn_stateRoot :: string
  fn_td :: int
  fn_txRoot :: string
  fn_receiptRoot :: string
  fn_uncleRoot :: string
  fn_bloom :: string
  fn_blockByMhKey_data :: string

text \<open>The node of \<^verbatim>\<open>getFullBlocks\<close>, from the raw block and the encoded header.\<close>

definition full_block_node_of :: "externals \<Rightarrow> provider \<Rightarrow> json \<Rightarrow> string \<Rightarrow> js_error + full_block_node" where
  "full_block_node_of ext p rawBlock rlpData =
     bnd (js_get rawBlock ''number'') (\<lambda>v1. bnd (formatter_number p v1) (\<lambda>blockNumber.
     bnd (js_get rawBlock ''hash'') (\<lambda>v2. bnd (formatter_hash p v2) (\<lambda>blockHash.
     bnd (js_get rawBlock ''parentHash'') (\<lambda>v3. bnd (formatter_hash p v3) (\<lambda>parentHash.
     bnd (js_get rawBlock ''timestamp'') (\<lambda>v4. bnd (formatter_number p v4) (\<lambda>timestamp.
     bnd (js_get rawBlock ''stateRoot'') (\<lambda>v5. bnd (formatter_hash p v5) (\<lambda>stateRoot.
     bnd (js_get rawBlock ''totalDifficulty'') (\<lambda>v6. bnd (formatter_bigNumber p v6) (\<lambda>td.
     bnd (js_get rawBlock ''transactionsRoot'') (\<lambda>v7. bnd (formatter_hash p v7) (\<lambda>txRoot.
     bnd (js_get rawBlock ''receiptsRoot'') (\<lambda>v8. bnd (formatter_hash p v8) (\<lambda>receiptRoot.
     bnd (js_get rawBlock ''sha3Uncles'') (\<lambda>v9. bnd (formatter_hash p v9) (\<lambda>uncleRoot.
     bnd (js_get rawBlock ''logsBloom'') (\<lambda>v10. bnd (formatter_hex p v10) (\<lambda>bloom.
       Inr \<lparr>fn_blockNumber = blockNumber, fn_blockHash = blockHash,
            fn_parentHash = parentHash, fn_timestamp = timestamp,
            fn_stateRoot = stateRoot, fn_td = td, fn_txRoot = txRoot,
            fn_receiptRoot = receiptRoot, fn_uncleRoot = uncleRoot,
            fn_bloom = escapeHexString ext bloom,
            fn_blockByMhKey_data = escapeHexString ext rlpData\<rparr>))))))))))))))))))))"

definition getFullBlocks ::
  "externals \<Rightarrow> provider \<Rightarrow> nat option \<Rightarrow> string option \<Rightarrow>
   eth_state \<Rightarrow> (js_error + full_block_node list) \<times> eth_state" where
  "getFullBlocks ext p blockNumber blockHash st =
     (case blockHashOrBlockNumber ext blockNumber blockHash of
        None \<Rightarrow> (Inl AssertionError, st)
      | Some tag \<Rightarrow>
          if tag = [] then (Inl AssertionError, st)
          else
            let params = [PString tag, PBool False];
                st' = st\<lparr>requests := requests st @ [ReqSend (rpc_method blockHash) params]\<rparr>
            in (bnd (send p (rpc_method blockHash) params) (\<lambda>rawBlock.
                bnd (blockHeader ext rawBlock) (\<lambda>header.
                bnd (full_block_node_of ext p rawBlock (encodeHeader ext header)) (\<lambda>node.
                  Inr [node]))), st'))"

subsection \<open>\<^verbatim>\<open>getLogs\<close>\<close>

definition lower_char :: "char \<Rightarrow> char" where
  "lower_char c =
     (let n = (of_char c :: nat)
      in if 65 \<le> n \<and> n \<le> 90 then char_of (n + 32) else c)"

definition toLowerCase :: "string \<Rightarrow> string" where
  "toLowerCase s = map lower_char s"

text \<open>
  The fetch callback of \<^verbatim>\<open>getLogs\<close>. One request per address is started before any
  answer is awaited, so all of them reach the provider; \<^verbatim>\<open>Promise.all\<close> then rejects
  with a rejection among them (the model takes the first in list order). When the
  gathered logs are empty, the logs of the block are requested without an address.
\<close>

definition fetchLogs ::
  "externals \<Rightarrow> provider \<Rightarrow> string \<Rightarrow> string list \<Rightarrow>
   eth_state \<Rightarrow> (js_error + cached) \<times> eth_state" where
  "fetchLogs ext p blockNumber addresses st =
     (let filters = map (\<lambda>address. \<lparr>fromBlock = js_Number ext (JStr blockNumber),
                                   toBlock = js_Number ext (JStr blockNumber),
                                   f_address = Some address\<rparr>) addresses;
          st1 = st\<lparr>requests := requests st @ map ReqGetLogs filters\<rparr>
      in case map_throwing (p_getLogs p) filters of
           Inl e \<Rightarrow> (Inl e, st1)
         | Inr logsByAddress \<Rightarrow>
             let logs = concat logsByAddress
             in if logs = []
                then
                  let f = \<lparr>fromBlock = js_Number ext (JStr blockNumber),
                           toBlock = js_Number ext (JStr blockNumber), f_address = None\<rparr>;
                      st2 = st1\<lparr>requests := requests st1 @ [ReqGetLogs f]\<rparr>
                  in (case p_getLogs p f of
                        Inl e \<Rightarrow> (Inl e, st2)
                      | Inr logs' \<Rightarrow>
                          (Inr (CachedLogs
                             (map (\<lambda>l. l\<lparr>log_address := toLowerCase (log_address l)\<rparr>) logs')),
                           st2))
                else (Inr (CachedLogs
                         (map (\<lambda>l. l\<lparr>log_address := toLowerCase (log_address l)\<rparr>) logs)),
                      st1))"

text \<open>The elements of a \<^verbatim>\<open>Set\<close> built by adding \<open>xs\<close> in order: first occurrences.\<close>

definition set_in_order :: "'a list \<Rightarrow> 'a list" where
  "set_in_order xs = rev (remdups (rev xs))"

record log_entry =
  le_account_address :: string
  le_transaction_hash :: string
  le_topics :: "string list"
  le_data :: string
  le_index :: nat
  le_status :: "int option"

text \<open>
  \<^verbatim>\<open>getLogs(vars)\<close> with \<^verbatim>\<open>vars = { blockHash, blockNumber, addresses }\<close>. The cache is
  keyed by \<^verbatim>\<open>vars\<close> as passed, with the block number as text, and the filters carry the
  number that \<^verbatim>\<open>Number\<close> reads from that text. The receipts
  are requested for the transaction hashes of the logs, cached or fetched; a \<^verbatim>\<open>null\<close>
  receipt makes the reduction throw. In the receipt map a later receipt replaces an
  earlier one with the same hash.
\<close>

definition logs_vars :: "string \<Rightarrow> string \<Rightarrow> string list option \<Rightarrow> Vars" where
  "logs_vars blockHash blockNumber addresses_opt =
     \<lparr>v_blockHash = Some blockHash, v_blockNumber = Some blockNumber,
      v_contract = None, v_slot = None, v_addresses = addresses_opt\<rparr>"

definition getLogs ::
  "externals \<Rightarrow> provider \<Rightarrow> string \<Rightarrow> string \<Rightarrow> string list option \<Rightarrow>
   eth_state \<Rightarrow> (js_error + log_entry list) \<times> eth_state" where
  "getLogs ext p blockHash blockNumber addresses_opt st =
     (let vars = logs_vars blockHash blockNumber addresses_opt;
          addresses = (case addresses_opt of None \<Rightarrow> [] | Some as \<Rightarrow> as)
      in case getCachedOrFetch ''getLogs'' vars (fetchLogs ext p blockNumber addresses) st of
           (Inl e, st1) \<Rightarrow> (Inl e, st1)
         | (Inr (CachedStorage s), st1) \<Rightarrow> (Inl TypeError, st1)
         | (Inr (CachedLogs result), st1) \<Rightarrow>
             let txHashes = set_in_order (map log_transactionHash result);
                 st2 = st1\<lparr>requests := requests st1 @ map ReqGetTransactionReceipt txHashes\<rparr>
             in (case map_throwing (p_getTransactionReceipt p) txHashes of
                   Inl e \<Rightarrow> (Inl e, st2)
                 | Inr txReceipts \<Rightarrow>
                     if None \<in> set txReceipts then (Inl TypeError, st2)
                     else
                       let txReceiptMap =
                             map_of (rev (map (\<lambda>r. (rc_transactionHash r, r)) (map the txReceipts)))
                       in (Inr (map (\<lambda>l.
                                  \<lparr>le_account_address = log_address l,
                                   le_transaction_hash = log_transactionHash l,
                                   le_topics = log_topics l,
                                   le_data = log_data l,
                                   le_index = log_logIndex l,
                                   le_status = (case txReceiptMap (log_transactionHash l) of
                                                  None \<Rightarrow> None
                                                | Some r \<Rightarrow> rc_status r)\<rparr>) result),
                           st2)))"

text \<open>
  The upstream node behind \<^verbatim>\<open>provider.getLogs\<close>, for a chain given by its logs: the logs
  of the blocks in the range, in chain order, restricted to the address of the filter
  when there is one (hexadecimal addresses match whatever their letter case). No block
  lies in a range with a bound that is not a number.
\<close>

definition in_range :: "log_filter \<Rightarrow> nat \<Rightarrow> bool" where
  "in_range f n =
     (case (fromBlock f, toBlock f) of
        (Some a, Some b) \<Rightarrow> a \<le> int n \<and> int n \<le> b
      | _ \<Rightarrow> False)"

definition node_getLogs :: "log list \<Rightarrow> log_filter \<Rightarrow> log list" where
  "node_getLogs chain f =
     filter (\<lambda>l. in_range f (log_blockNumber l) \<and>
                 (case f_address f of
                    None \<Rightarrow> True
                  | Some a \<Rightarrow> toLowerCase (log_address l) = toLowerCase a)) chain"

subsection \<open>The header fields in the words of the specification\<close>

text \<open>
  The specification lists the header fields in order, each with the raw block field it
  is taken from: parent, uncles digest, beneficiary, the state, transaction and receipt
  roots, bloom, difficulty, number, gas limit, gas used, time, extra, mix digest, nonce
  and base fee. The big integers go through \<^verbatim>\<open>BigInt\<close>, the time through \<^verbatim>\<open>Number\<close>.
\<close>

datatype conversion = AsIs | AsBigInt | AsNumber

definition spec_header_fields :: "(string \<times> string \<times> conversion) list" where
  "spec_header_fields =
     [(''Parent'', ''parentHash'', AsIs),
      (''UnclesDigest'', ''sha3Uncles'', AsIs),
      (''Beneficiary'', ''miner'', AsIs),
      (''StateRoot'', ''stateRoot'', AsIs),
      (''TxRoot'', ''transactionsRoot'', AsIs),
      (''RctRoot'', ''receiptsRoot'', AsIs),
      (''Bloom'', ''logsBloom'', AsIs),
      (''Difficulty'', ''difficulty'', AsBigInt),
      (''Number'', ''number'', AsBigInt),
      (''GasLimit'', ''gasLimit'', AsBigInt),
      (''GasUsed'', ''gasUsed'', AsBigInt),
      (''Time'', ''timestamp'', AsNumber),
      (''Extra'', ''extraData'', AsIs),
      (''MixDigest'', ''mixHash'', AsIs),
      (''Nonce'', ''nonce'', AsBigInt),
      (''BaseFee'', ''baseFeePerGas'', AsBigInt)]"

fun spec_header_entry ::
  "externals \<Rightarrow> json \<Rightarrow> string \<times> string \<times> conversion \<Rightarrow> js_error + string \<times> header_value" where
  "spec_header_entry ext rawBlock (name, key, AsIs) =
     bnd (js_get rawBlock key) (\<lambda>v. Inr (name, HJson v))"
| "spec_header_entry ext rawBlock (name, key, AsBigInt) =
     bnd (js_get rawBlock key) (\<lambda>v. bnd (js_BigInt ext v) (\<lambda>n. Inr (name, HBigInt n)))"
| "spec_header_entry ext rawBlock (name, key, AsNumber) =
     bnd (js_get rawBlock key) (\<lambda>v. Inr (name, HNumber (js_Number ext v)))"

section \<open>Concrete collaborators\<close>

text \<open>
  Instances of the parameters, for evaluating the client on concrete inputs: external
  functions that read the text of an unsigned integer, decimal or hexadecimal after
  \<^verbatim>\<open>0x\<close>, and a provider that answers \<^verbatim>\<open>send\<close> with a given outcome and serves the logs
  of a given chain.
\<close>

definition digit_of :: "char \<Rightarrow> nat option" where
  "digit_of c =
     (let n = (of_char c :: nat)
      in if 48 \<le> n \<and> n \<le> 57 then Some (n - 48)
         else if 97 \<le> n \<and> n \<le> 102 then Some (n - 87)
         else if 65 \<le> n \<and> n \<le> 70 then Some (n - 55)
         else None)"

fun read_digits :: "nat \<Rightarrow> nat \<Rightarrow> string \<Rightarrow> nat option" where
  "read_digits base acc [] = Some acc"
| "read_digits base acc (c # cs) =
     (case digit_of c of
        None \<Rightarrow> None
      | Some d \<Rightarrow> if d < base then read_digits base (acc * base + d) cs else None)"

definition read_integer :: "string \<Rightarrow> int option" where
  "read_integer s =
     (if take 2 s = ''0x''
      then (if drop 2 s = [] then None else map_option int (read_digits 16 0 (drop 2 s)))
      else map_option int (read_digits 10 0 s))"

definition ext0 :: externals where
  "ext0 = \<lparr>hexValue = (\<lambda>n. if n = 100 then ''0x64'' else ''0x5''),
           padKey = (\<lambda>s. s),
           encodeHeader = (\<lambda>h. concat (map fst h)),
           escapeHexString = (\<lambda>s. s),
           stringToBigInt = read_integer,
           stringToNumber = read_integer,
           toPrimitiveString = (\<lambda>v. ''[object Object]'')\<rparr>"

text \<open>The formatter of the provider, on a number or the text of one.\<close>

definition format_number :: "json \<Rightarrow> js_error + int" where
  "format_number v =
     (case v of
        JNum n \<Rightarrow> Inr n
      | JStr s \<Rightarrow> (case read_integer s of None \<Rightarrow> Inl TypeError | Some n \<Rightarrow> Inr n)
      | _ \<Rightarrow> Inl TypeError)"

definition node_provider :: "js_error + json \<Rightarrow> log list \<Rightarrow> provider" where
  "node_provider answer chain =
     \<lparr>send = (\<lambda>m ps. answer),
      p_getStorageAt = (\<lambda>c s h. Inr ''0x01''),
      p_getLogs = (\<lambda>f. Inr (node_getLogs chain f)),
      p_getTransactionReceipt =
        (\<lambda>h. Inr (Some \<lparr>rc_transactionHash = h, rc_status = Some 1\<rparr>)),
      formatter_block = (\<lambda>v. Inl TypeError),
      formatter_hash = (\<lambda>v. case v of JStr s \<Rightarrow> Inr s | _ \<Rightarrow> Inl TypeError),
      formatter_bigNumber = format_number,
      formatter_number = format_number,
      formatter_hex = (\<lambda>v. case v of JStr s \<Rightarrow> Inr s | _ \<Rightarrow> Inl TypeError)\<rparr>"

text \<open>
  The fields of a raw block as the upstream node answers: quantities are hexadecimal
  text. \<open>legacyFields\<close> are those of a block from before the base fee existed.
\<close>

definition legacyFields :: "(string \<times> json) list" where
  "legacyFields =
     [(''number'', JStr ''0x64''), (''hash'', JStr ''0xh100''),
      (''parentHash'', JStr ''0xh99''), (''sha3Uncles'', JStr ''0xu''),
      (''miner'', JStr ''0xm''), (''stateRoot'', JStr ''0xs''),
      (''transactionsRoot'', JStr ''0xt''), (''receiptsRoot'', JStr ''0xr''),
      (''logsBloom'', JStr ''0xb''), (''difficulty'', JStr ''0x2''),
      (''totalDifficulty'', JStr ''0xc8''), (''gasLimit'', JStr ''0x1c9c380''),
      (''gasUsed'', JStr ''0x5208''), (''timestamp'', JStr ''0x6553f100''),
      (''extraData'', JStr ''0x''), (''mixHash'', JStr ''0xx''),
      (''nonce'', JStr ''0x0000000000000000'')]"

definition rawFields0 :: "(string \<times> json) list" where
  "rawFields0 = legacyFields @ [(''baseFeePerGas'', JStr ''0x7'')]"

definition rawBlock0 :: json where
  "rawBlock0 = JObj rawFields0"

text \<open>A chain with one log, emitted in block 5, and the two cache keys used with it.\<close>

definition log5 :: "string \<Rightarrow> log" where
  "log5 a = \<lparr>log_blockNumber = 5, log_address = a, log_transactionHash = ''0xt1'',
             log_topics = [''0xtopic''], log_data = ''0x'', log_logIndex = 0\<rparr>"

definition storage_key0 :: "string \<times> Vars" where
  "storage_key0 = (''getStorageAt'', storage_vars ''0xh5'' ''0xaa'' ''0x00'')"

definition logs_key0 :: "string \<times> Vars" where
  "logs_key0 = (''getLogs'', logs_vars ''0xh5'' ''5'' (Some [''0xaa'']))"

section \<open>Filling state for a block range: \<^verbatim>\<open>fillState\<close>\<close>

text \<open>\<^verbatim>\<open>StateKind\<close> and the stored state records (\<^verbatim>\<open>StateInterface\<close>), with their block number.\<close>

datatype StateKind = Diff | Init | DiffStaged | Checkpoint

record state_record =
  st_blockNumber :: int
  st_blockHash :: string
  st_contractAddress :: string
  st_cid :: string
  st_kind :: StateKind

record block_progress =
  bp_blockHash :: string
  bp_blockNumber :: int
  bp_isPruned :: bool

text \<open>
  What the indexer holds in its store: the state records and the blocks. Further state
  of an indexer (the in-memory subgraph state, the status rows) lives in the extension
  of the record.
\<close>

record indexer =
  ipldBlocks :: "state_record list"
  blockProgress :: "block_progress list"

text \<open>
  Modelled from the spec: \<^verbatim>\<open>Indexer.getIPLDBlocks\<close> and \<^verbatim>\<open>Indexer.getBlocksAtHeight\<close>
  (the indexer of the watcher is not among the sources). The first is the query for
  state records in an inclusive block range, \<^verbatim>\<open>Between(startBlock, endBlock)\<close>; the second
  queries the blocks at a height with the given \<^verbatim>\<open>isPruned\<close> flag.
\<close>

definition getIPLDBlocks :: "'a indexer_scheme \<Rightarrow> int \<Rightarrow> int \<Rightarrow> state_record list" where
  "getIPLDBlocks ix startBlock endBlock =
     filter (\<lambda>r. startBlock \<le> st_blockNumber r \<and> st_blockNumber r \<le> endBlock) (ipldBlocks ix)"

definition getBlocksAtHeight :: "'a indexer_scheme \<Rightarrow> int \<Rightarrow> bool \<Rightarrow> block_progress list" where
  "getBlocksAtHeight ix height isPruned =
     filter (\<lambda>b. bp_blockNumber b = height \<and> bp_isPruned b = isPruned) (blockProgress ix)"

text \<open>
  An awaited call that changes the indexer: the state it leaves and the error when it
  rejects. How the process ends: \<^verbatim>\<open>process.exit(code)\<close>, a normal return, or an error
  that leaves \<^verbatim>\<open>fillState\<close>.
\<close>

type_synonym 's action = "'s \<Rightarrow> 's \<times> js_error option"

datatype outcome = Exit nat | Returned | Threw js_error

definition andThen :: "'s action \<Rightarrow> 's action \<Rightarrow> 's action" where
  "andThen f g s = (case f s of (s', Some e) \<Rightarrow> (s', Some e) | (s', None) \<Rightarrow> g s')"

fun forEach :: "('a \<Rightarrow> 's action) \<Rightarrow> 'a list \<Rightarrow> 's action" where
  "forEach f [] s = (s, None)"
| "forEach f (x # xs) s = andThen (f x) (forEach f xs) s"

text \<open>
  The other methods of the indexer and of the graph database that \<^verbatim>\<open>fillState\<close> calls;
  they are parameters. \<open>'e\<close> is an entity, \<open>'d\<close> the diff data of an entity update,
  \<open>'x\<close> the data pushed to IPFS.
\<close>

record ('s, 'e, 'd, 'x) indexer_ops =
  createInit :: "string \<Rightarrow> int \<Rightarrow> 's action"
  getEntitiesForBlock :: "'s \<Rightarrow> string \<Rightarrow> string \<Rightarrow> js_error + 'e list"
  prepareEntityState :: "'s \<Rightarrow> 'e \<Rightarrow> string \<Rightarrow> 'd"
  updateSubgraphState :: "string \<Rightarrow> 'd \<Rightarrow> 's \<Rightarrow> 's"
  dumpSubgraphState :: "string \<Rightarrow> bool \<Rightarrow> 's action"
  updateIPLDStatusHooksBlock :: "int \<Rightarrow> 's action"
  processCheckpoint :: "string \<Rightarrow> 's action"
  updateIPLDStatusCheckpointBlock :: "int \<Rightarrow> 's action"
  isIPFSConfigured :: "'s \<Rightarrow> bool"
  getIPLDBlocksByHash :: "'s \<Rightarrow> string \<Rightarrow> js_error + state_record list"
  getIPLDData :: "state_record \<Rightarrow> 'x"
  pushToIPFS :: "'x \<Rightarrow> 's action"
  updateIPLDStatusIPFSBlock :: "int \<Rightarrow> 's action"

text \<open>
  A data source of the subgraph: the contract address and the entity names of its
  mapping. \<^verbatim>\<open>contractEntitiesMap\<close> is a \<^verbatim>\<open>Map\<close>: setting a key that is present replaces
  the value in place, a new key goes to the end.
\<close>

definition contractEntitiesMap :: "(string \<times> string list) list \<Rightarrow> (string \<times> string list) list" where
  "contractEntitiesMap dataSources =
     fold (\<lambda>(contractAddress, entities) m. AList.update contractAddress entities m) dataSources []"

text \<open>
  The state of one contract at one block: the updated entities of every entity type
  are read, then each update is put into the in-memory subgraph state. The source
  starts these per contract and awaits them together; the model runs them in the order
  of the map.
\<close>

definition fillContractState ::
  "('s, 'e, 'd, 'x) indexer_ops \<Rightarrow> string \<Rightarrow> string \<times> string list \<Rightarrow> 's action" where
  "fillContractState ops blockHash = (\<lambda>(contractAddress, entities) s.
     case map_throwing (getEntitiesForBlock ops s blockHash) entities of
       Inl e \<Rightarrow> (s, Some e)
     | Inr updatedEntitiesList \<Rightarrow>
         (fold (\<lambda>(updatedEntities, entityName) s1.
                  fold (\<lambda>updatedEntity s2.
                          updateSubgraphState ops contractAddress
                            (prepareEntityState ops s2 updatedEntity entityName) s2)
                       updatedEntities s1)
               (zip updatedEntitiesList entities) s,
          None))"

definition pushBlockToIPFS :: "('s, 'e, 'd, 'x) indexer_ops \<Rightarrow> string \<Rightarrow> int \<Rightarrow> 's action" where
  "pushBlockToIPFS ops blockHash blockNumber s =
     (if isIPFSConfigured ops s
      then (case getIPLDBlocksByHash ops s blockHash of
              Inl e \<Rightarrow> (s, Some e)
            | Inr blocksOfHash \<Rightarrow>
                andThen (forEach (\<lambda>ipldBlock. pushToIPFS ops (getIPLDData ops ipldBlock)) blocksOfHash)
                        (updateIPLDStatusIPFSBlock ops blockNumber) s)
      else (s, None))"

text \<open>
  The body of the loop for one block number: \<open>None\<close> when the loop goes on, otherwise
  how the process ends.
\<close>

definition fillBlock ::
  "('a indexer_scheme, 'e, 'd, 'x) indexer_ops \<Rightarrow> (string \<times> string list) list \<Rightarrow> int \<Rightarrow>
   'a indexer_scheme \<Rightarrow> 'a indexer_scheme \<times> outcome option" where
  "fillBlock ops cem blockNumber s =
     (let blocks = getBlocksAtHeight s blockNumber False
      in if length blocks = 0 then (s, Some (Exit 1))
         else if length blocks > 1 then (s, Some (Exit 1))
         else
           let blockHash = bp_blockHash (hd blocks)
           in (case andThen (createInit ops blockHash blockNumber)
                    (andThen (forEach (fillContractState ops blockHash) cem)
                    (andThen (dumpSubgraphState ops blockHash True)
                    (andThen (updateIPLDStatusHooksBlock ops blockNumber)
                    (andThen (processCheckpoint ops blockHash)
                    (andThen (updateIPLDStatusCheckpointBlock ops blockNumber)
                             (pushBlockToIPFS ops blockHash blockNumber)))))) s of
                 (s', Some e) \<Rightarrow> (s', Some (Threw e))
               | (s', None) \<Rightarrow> (s', None)))"

function fillRange ::
  "('a indexer_scheme, 'e, 'd, 'x) indexer_ops \<Rightarrow> (string \<times> string list) list \<Rightarrow> int \<Rightarrow> int \<Rightarrow>
   'a indexer_scheme \<Rightarrow> 'a indexer_scheme \<times> outcome" where
  "fillRange ops cem blockNumber endBlock s =
     (if blockNumber \<le> endBlock
      then (case fillBlock ops cem blockNumber s of
              (s', Some out) \<Rightarrow> (s', out)
            | (s', None) \<Rightarrow> fillRange ops cem (blockNumber + 1) endBlock s')
      else (s, Returned))"
  by pat_completeness auto
termination
  by (relation "measure (\<lambda>(ops, cem, blockNumber, endBlock, s). nat (endBlock + 1 - blockNumber))")
    auto

text \<open>\<^verbatim>\<open>fillState(indexer, graphDb, dataSources, { startBlock, endBlock })\<close>.\<close>

definition fillState ::
  "('a indexer_scheme, 'e, 'd, 'x) indexer_ops \<Rightarrow> (string \<times> string list) list \<Rightarrow> int \<Rightarrow> int \<Rightarrow>
   'a indexer_scheme \<Rightarrow> 'a indexer_scheme \<times> outcome" where
  "fillState ops dataSources startBlock endBlock s =
     (if startBlock > endBlock then (s, Exit 1)
      else
        let existingStates = getIPLDBlocks s startBlock endBlock
        in if length existingStates > 0 then (s, Exit 1)
           else fillRange ops (contractEntitiesMap dataSources) startBlock endBlock s)"

text \<open>
  An indexer for evaluating \<^verbatim>\<open>fillState\<close>: \<^verbatim>\<open>createInit\<close> writes an init record for one
  contract at the block, the other calls change nothing.
\<close>

definition ops0 :: "(indexer, unit, unit, unit) indexer_ops" where
  "ops0 =
     \<lparr>createInit = (\<lambda>h n s.
        (s\<lparr>ipldBlocks := ipldBlocks s @
              [\<lparr>st_blockNumber = n, st_blockHash = h, st_contractAddress = ''0xaa'',
                st_cid = ''bafyInit'', st_kind = Init\<rparr>]\<rparr>, None)),
      getEntitiesForBlock = (\<lambda>s h e. Inr []),
      prepareEntityState = (\<lambda>s e n. ()),
      updateSubgraphState = (\<lambda>c d s. s),
      dumpSubgraphState = (\<lambda>h b s. (s, None)),
      updateIPLDStatusHooksBlock = (\<lambda>n s. (s, None)),
      processCheckpoint = (\<lambda>h s. (s, None)),
      updateIPLDStatusCheckpointBlock = (\<lambda>n s. (s, None)),
      isIPFSConfigured = (\<lambda>s. False),
      getIPLDBlocksByHash = (\<lambda>s h. Inr []),
      getIPLDData = (\<lambda>r. ()),
      pushToIPFS = (\<lambda>x s. (s, None)),
      updateIPLDStatusIPFSBlock = (\<lambda>n s. (s, None))\<rparr>"

text \<open>A store with the blocks 200 and 201 and one diff record at block 202.\<close>

definition store0 :: indexer where
  "store0 =
     \<lparr>ipldBlocks = [\<lparr>st_blockNumber = 202, st_blockHash = ''0xh202'',
                     st_contractAddress = ''0xaa'', st_cid = ''bafyD'', st_kind = Diff\<rparr>],
      blockProgress = [\<lparr>bp_blockHash = ''0xh200'', bp_blockNumber = 200, bp_isPruned = False\<rparr>,
                       \<lparr>bp_blockHash = ''0xh201'', bp_blockNumber = 201, bp_isPruned = False\<rparr>]\<rparr>"

section \<open>Combining state payloads: \<^verbatim>\<open>combineIPLDState\<close>\<close>

subsection \<open>Sorting the relation fields\<close>

text \<open>
  \<^verbatim>\<open>Array.prototype.sort\<close> with a comparator: the sort is stable, and for a consistent
  comparator every stable sort gives the same result, here by insertion from the right.
  (For an inconsistent comparator the order is up to the engine.)
\<close>

fun insert_by :: "('a \<Rightarrow> 'a \<Rightarrow> int) \<Rightarrow> 'a \<Rightarrow> 'a list \<Rightarrow> 'a list" where
  "insert_by cmp x [] = [x]"
| "insert_by cmp x (y # ys) = (if cmp x y \<le> 0 then x # y # ys else y # insert_by cmp x ys)"

definition js_sort :: "('a \<Rightarrow> 'a \<Rightarrow> int) \<Rightarrow> 'a list \<Rightarrow> 'a list" where
  "js_sort cmp xs = foldr (insert_by cmp) xs []"

text \<open>The \<^verbatim>\<open>id\<close> of an array element when it is a string.\<close>

fun id_of :: "json \<Rightarrow> string option" where
  "id_of (JObj kvs) = (case map_of kvs ''id'' of Some (JStr s) \<Rightarrow> Some s | _ \<Rightarrow> None)"
| "id_of _ = None"

definition id_text :: "json \<Rightarrow> string" where
  "id_text x = (case id_of x of Some s \<Rightarrow> s | None \<Rightarrow> [])"

text \<open>
  \<^verbatim>\<open>fieldValue.sort((a, b) => a.id.localeCompare(b.id))\<close>. The comparator of the runtime,
  \<^verbatim>\<open>localeCompare\<close> on strings, is a parameter. With fewer than two elements the
  comparator is not called. Otherwise every element takes part in a comparison, and
  \<^verbatim>\<open>a.id.localeCompare\<close> throws a \<^verbatim>\<open>TypeError\<close> unless \<^verbatim>\<open>a.id\<close> is a string: the model
  throws when some element has no string id. (Which elements an engine passes as \<^verbatim>\<open>a\<close>
  is its own choice; an array whose first element has a truthy id that is not a string
  may pass in an engine that never does so.)
\<close>

definition sortById :: "(string \<Rightarrow> string \<Rightarrow> int) \<Rightarrow> json list \<Rightarrow> js_error + json list" where
  "sortById localeCompare xs =
     (if length xs \<le> 1 then Inr xs
      else if list_all (\<lambda>x. id_of x \<noteq> None) xs
           then Inr (js_sort (\<lambda>a b. localeCompare (id_text a) (id_text b)) xs)
           else Inl TypeError)"

text \<open>
  The body of the innermost \<^verbatim>\<open>forEach\<close>: an array that is not empty and whose first
  element has a truthy \<^verbatim>\<open>id\<close> is sorted by id and cut with \<^verbatim>\<open>splice(DEFAULT_LIMIT)\<close>;
  every other value is left alone. \<^verbatim>\<open>DEFAULT_LIMIT\<close> is a constant of the database
  module and a parameter here.
\<close>

definition sortRelationField ::
  "(string \<Rightarrow> string \<Rightarrow> int) \<Rightarrow> nat \<Rightarrow> json \<Rightarrow> js_error + json" where
  "sortRelationField localeCompare DEFAULT_LIMIT fieldValue =
     (case fieldValue of
        JArr xs \<Rightarrow>
          if xs \<noteq> []
          then bnd (js_get (hd xs) ''id'') (\<lambda>first_id.
                 if truthy first_id
                 then bnd (sortById localeCompare xs) (\<lambda>sorted.
                        Inr (JArr (take DEFAULT_LIMIT sorted)))
                 else Inr fieldValue)
          else Inr fieldValue
      | _ \<Rightarrow> Inr fieldValue)"

text \<open>
  \<^verbatim>\<open>Object.values(v).forEach(f)\<close> where \<open>f\<close> changes the values in place: an object and
  an array are traversed, \<^verbatim>\<open>null\<close> and \<^verbatim>\<open>undefined\<close> throw, and a string, a number or a
  boolean holds nothing that the innermost step changes.
\<close>

fun forEachValue :: "(json \<Rightarrow> js_error + json) \<Rightarrow> json \<Rightarrow> js_error + json" where
  "forEachValue f (JObj kvs) =
     bnd (map_throwing (\<lambda>(k, v). bnd (f v) (\<lambda>v'. Inr (k, v'))) kvs) (\<lambda>kvs'. Inr (JObj kvs'))"
| "forEachValue f (JArr xs) = bnd (map_throwing f xs) (\<lambda>xs'. Inr (JArr xs'))"
| "forEachValue f JUndefined = Inl TypeError"
| "forEachValue f JNull = Inl TypeError"
| "forEachValue f (JBool b) = Inr (JBool b)"
| "forEachValue f (JNum n) = Inr (JNum n)"
| "forEachValue f (JStr s) = Inr (JStr s)"

text \<open>
  The callback of \<^verbatim>\<open>contractIPLDs.map\<close>: the state of one payload with its relation
  fields sorted and cut, or the empty object when the payload is missing.
\<close>

definition contractIPLDState ::
  "(string \<Rightarrow> string \<Rightarrow> int) \<Rightarrow> nat \<Rightarrow> contractIPLD option \<Rightarrow> js_error + json" where
  "contractIPLDState localeCompare DEFAULT_LIMIT contractIPLD =
     (case contractIPLD of
        None \<Rightarrow> Inr (JObj [])
      | Some r \<Rightarrow>
          (case data r of
             None \<Rightarrow> Inl SyntaxError
           | Some d \<Rightarrow>
               bnd (js_get d ''state'') (\<lambda>state.
                 forEachValue (forEachValue (forEachValue
                   (sortRelationField localeCompare DEFAULT_LIMIT))) state)))"

subsection \<open>Merging the states\<close>

text \<open>
  \<^verbatim>\<open>_.merge\<close> of lodash on JSON values. For every key of the source, a source value that
  is an array or an object is merged recursively into the value of the destination
  under that key: an array into an array index by index, an object into an object key
  by key, and into a fresh array or object when the destination value has another
  shape. Any other source value replaces the destination value. The destination value
  under the key \<^verbatim>\<open>__proto__\<close> is never read. Three corners leave JSON or need more of
  lodash and end the model with \<open>Unmodelled\<close>: an object with entries merged into an
  array, an array merged into an object that has a numeric \<^verbatim>\<open>length\<close>, and a primitive
  or array-into-object merge at the top.
\<close>

datatype merge_error = Unmodelled | Raised js_error

definition safeGet :: "(string \<times> json) list \<Rightarrow> string \<Rightarrow> json" where
  "safeGet object key =
     (if key = ''__proto__'' then JUndefined
      else case map_of object key of None \<Rightarrow> JUndefined | Some v \<Rightarrow> v)"

definition isArrayLikeObject :: "(string \<times> json) list \<Rightarrow> bool" where
  "isArrayLikeObject kvs = (case map_of kvs ''length'' of Some (JNum n) \<Rightarrow> 0 \<le> n | _ \<Rightarrow> False)"

definition mbind :: "merge_error + 'a \<Rightarrow> ('a \<Rightarrow> merge_error + 'b) \<Rightarrow> merge_error + 'b" where
  "mbind r f = (case r of Inl e \<Rightarrow> Inl e | Inr x \<Rightarrow> f x)"

fun mergeValue :: "json \<Rightarrow> json \<Rightarrow> merge_error + json"
  and mergeEntries :: "(string \<times> json) list \<Rightarrow> (string \<times> json) list \<Rightarrow> merge_error + (string \<times> json) list"
  and mergeElements :: "json list \<Rightarrow> nat \<Rightarrow> json list \<Rightarrow> merge_error + json list"
  where
  "mergeValue objValue (JArr src) =
     (case objValue of
        JArr xs \<Rightarrow> mbind (mergeElements xs 0 src) (\<lambda>ys. Inr (JArr ys))
      | JObj kvs \<Rightarrow>
          if isArrayLikeObject kvs then Inl Unmodelled
          else mbind (mergeElements [] 0 src) (\<lambda>ys. Inr (JArr ys))
      | _ \<Rightarrow> mbind (mergeElements [] 0 src) (\<lambda>ys. Inr (JArr ys)))"
| "mergeValue objValue (JObj src) =
     (case objValue of
        JObj kvs \<Rightarrow> mbind (mergeEntries kvs src) (\<lambda>kvs'. Inr (JObj kvs'))
      | JArr xs \<Rightarrow> if src = [] then Inr (JArr xs) else Inl Unmodelled
      | _ \<Rightarrow> mbind (mergeEntries [] src) (\<lambda>kvs'. Inr (JObj kvs')))"
| "mergeValue objValue JUndefined = Inr objValue"
| "mergeValue objValue JNull = Inr JNull"
| "mergeValue objValue (JBool b) = Inr (JBool b)"
| "mergeValue objValue (JNum n) = Inr (JNum n)"
| "mergeValue objValue (JStr s) = Inr (JStr s)"
| "mergeEntries object [] = Inr object"
| "mergeEntries object ((key, srcValue) # rest) =
     mbind (mergeValue (safeGet object key) srcValue) (\<lambda>newValue.
       mergeEntries (AList.update key newValue object) rest)"
| "mergeElements object i [] = Inr object"
| "mergeElements object i (srcValue # rest) =
     mbind (mergeValue (if i < length object then object ! i else JUndefined) srcValue)
       (\<lambda>newValue.
          mergeElements (if i < length object then object[i := newValue] else object @ [newValue])
            (Suc i) rest)"

text \<open>
  \<^verbatim>\<open>_.merge(acc, state)\<close> at the top: a falsy source is skipped, a number or \<^verbatim>\<open>true\<close> has no
  keys to merge.
\<close>

definition merge :: "json \<Rightarrow> json \<Rightarrow> merge_error + json" where
  "merge acc state =
     (case acc of
        JObj kvs \<Rightarrow>
          (case state of
             JObj src \<Rightarrow> mbind (mergeEntries kvs src) (\<lambda>kvs'. Inr (JObj kvs'))
           | JArr src \<Rightarrow> if src = [] then Inr acc else Inl Unmodelled
           | JStr s \<Rightarrow> if s = [] then Inr acc else Inl Unmodelled
           | _ \<Rightarrow> Inr acc)
      | JArr xs \<Rightarrow>
          (case state of
             JArr src \<Rightarrow> mbind (mergeElements xs 0 src) (\<lambda>ys. Inr (JArr ys))
           | JObj src \<Rightarrow> if src = [] then Inr acc else Inl Unmodelled
           | JStr s \<Rightarrow> if s = [] then Inr acc else Inl Unmodelled
           | _ \<Rightarrow> Inr acc)
      | _ \<Rightarrow> Inl Unmodelled)"

text \<open>
  \<^verbatim>\<open>contractIPLDStates.reduce((acc, state) => _.merge(acc, state))\<close>: without an initial
  value an empty array throws and a single state is returned as it is.
\<close>

fun reduce_merge :: "json \<Rightarrow> json list \<Rightarrow> merge_error + json" where
  "reduce_merge acc [] = Inr acc"
| "reduce_merge acc (state # rest) = mbind (merge acc state) (\<lambda>acc'. reduce_merge acc' rest)"

definition combineIPLDState ::
  "(string \<Rightarrow> string \<Rightarrow> int) \<Rightarrow> nat \<Rightarrow> contractIPLD option list \<Rightarrow> merge_error + json" where
  "combineIPLDState localeCompare DEFAULT_LIMIT contractIPLDs =
     (case map_throwing (contractIPLDState localeCompare DEFAULT_LIMIT) contractIPLDs of
        Inl e \<Rightarrow> Inl (Raised e)
      | Inr contractIPLDStates \<Rightarrow>
          (case contractIPLDStates of
             [] \<Rightarrow> Inl (Raised TypeError)
           | state # rest \<Rightarrow> reduce_merge state rest))"

subsection \<open>Relation fields, order and reordering\<close>

text \<open>
  A comparator is consistent when it orders its arguments: \<open>cmp a b\<close> is negative
  exactly when \<open>cmp b a\<close> is positive, and \<open>cmp a b \<le> 0\<close> is transitive. This is what
  the language asks of the function passed to \<^verbatim>\<open>sort\<close>, and what \<^verbatim>\<open>localeCompare\<close>
  provides.
\<close>

definition consistent_comparator :: "('a \<Rightarrow> 'a \<Rightarrow> int) \<Rightarrow> bool" where
  "consistent_comparator cmp \<longleftrightarrow>
     (\<forall>a b. (cmp a b < 0) = (cmp b a > 0)) \<and>
     (\<forall>a b c. cmp a b \<le> 0 \<and> cmp b c \<le> 0 \<longrightarrow> cmp a c \<le> 0)"

text \<open>
  The values that \<^verbatim>\<open>Object.values\<close> walks through, and the fields of a state: the values
  of the entities of the entity types, three levels down.
\<close>

fun values_of :: "json \<Rightarrow> json list" where
  "values_of (JObj kvs) = map snd kvs"
| "values_of (JArr xs) = xs"
| "values_of _ = []"

definition fields_of :: "json \<Rightarrow> json list" where
  "fields_of state = concat (map values_of (concat (map values_of (values_of state))))"

text \<open>
  An entity-relation field in the words of the specification: a non-empty array whose
  elements carry an id, that is, each element is an object with a non-empty string
  under \<^verbatim>\<open>id\<close>. Such a field is sorted by id when its elements ascend in the order of
  the comparator.
\<close>

definition carries_id :: "json \<Rightarrow> bool" where
  "carries_id x = (case id_of x of Some s \<Rightarrow> s \<noteq> [] | None \<Rightarrow> False)"

definition is_relation_array :: "json \<Rightarrow> bool" where
  "is_relation_array v = (case v of JArr xs \<Rightarrow> xs \<noteq> [] \<and> list_all carries_id xs | _ \<Rightarrow> False)"

definition sorted_by_id :: "(string \<Rightarrow> string \<Rightarrow> int) \<Rightarrow> json \<Rightarrow> bool" where
  "sorted_by_id lc v =
     (case v of JArr xs \<Rightarrow> sorted_wrt (\<lambda>a b. lc (id_text a) (id_text b) \<le> 0) xs | _ \<Rightarrow> False)"

definition array_length :: "json \<Rightarrow> nat" where
  "array_length v = (case v of JArr xs \<Rightarrow> length xs | _ \<Rightarrow> 0)"

text \<open>
  Two inputs that are equal up to the order of the elements of their entity-relation
  fields: the states have the same shape and the same keys in the same order, and
  corresponding fields are equal or are relation arrays with the same elements.
\<close>

fun rel_values :: "(json \<Rightarrow> json \<Rightarrow> bool) \<Rightarrow> json \<Rightarrow> json \<Rightarrow> bool" where
  "rel_values R (JObj kvs) w =
     (case w of
        JObj kws \<Rightarrow> map fst kvs = map fst kws \<and> list_all2 R (map snd kvs) (map snd kws)
      | _ \<Rightarrow> False)"
| "rel_values R (JArr xs) w = (case w of JArr ys \<Rightarrow> list_all2 R xs ys | _ \<Rightarrow> False)"
| "rel_values R JUndefined w = (w = JUndefined)"
| "rel_values R JNull w = (w = JNull)"
| "rel_values R (JBool b) w = (w = JBool b)"
| "rel_values R (JNum n) w = (w = JNum n)"
| "rel_values R (JStr s) w = (w = JStr s)"

definition reordered_field :: "json \<Rightarrow> json \<Rightarrow> bool" where
  "reordered_field v w =
     (v = w \<or>
      (is_relation_array v \<and>
       (case v of JArr xs \<Rightarrow> (case w of JArr ys \<Rightarrow> mset xs = mset ys | _ \<Rightarrow> False)
                | _ \<Rightarrow> False)))"

definition reordered_state :: "json \<Rightarrow> json \<Rightarrow> bool" where
  "reordered_state s t = rel_values (rel_values (rel_values reordered_field)) s t"

definition reordered_payload :: "contractIPLD option \<Rightarrow> contractIPLD option \<Rightarrow> bool" where
  "reordered_payload p q =
     (case p of
        None \<Rightarrow> q = None
      | Some r1 \<Rightarrow>
          (case q of
             None \<Rightarrow> False
           | Some r2 \<Rightarrow>
               (case data r1 of
                  None \<Rightarrow> data r2 = None
                | Some d1 \<Rightarrow>
                    (case data r2 of
                       None \<Rightarrow> False
                     | Some d2 \<Rightarrow>
                         (case js_get d1 ''state'' of
                            Inl e \<Rightarrow> js_get d2 ''state'' = Inl e
                          | Inr s \<Rightarrow>
                              (case js_get d2 ''state'' of
                                 Inl e \<Rightarrow> False
                               | Inr t \<Rightarrow> reordered_state s t))))))"

text \<open>
  The elements of an array have distinct ids when two different elements never compare
  as equal; a payload has distinct ids when every field of its state has.
\<close>

definition distinct_ids :: "(string \<Rightarrow> string \<Rightarrow> int) \<Rightarrow> json \<Rightarrow> bool" where
  "distinct_ids lc v =
     (case v of
        JArr xs \<Rightarrow> (\<forall>x \<in> set xs. \<forall>y \<in> set xs. x \<noteq> y \<longrightarrow> lc (id_text x) (id_text y) \<noteq> 0)
      | _ \<Rightarrow> True)"

definition payload_distinct_ids :: "(string \<Rightarrow> string \<Rightarrow> int) \<Rightarrow> contractIPLD option \<Rightarrow> bool" where
  "payload_distinct_ids lc p =
     (case p of
        None \<Rightarrow> True
      | Some r \<Rightarrow>
          (case data r of
             None \<Rightarrow> True
           | Some d \<Rightarrow>
               (case js_get d ''state'' of
                  Inl e \<Rightarrow> True
                | Inr s \<Rightarrow> list_all (distinct_ids lc) (fields_of s))))"

subsection \<open>A comparator and payloads for evaluation\<close>

text \<open>
  Comparison of strings character by character, a consistent comparator to evaluate
  with; and a payload with one entity that has one relation field.
\<close>

fun codeUnitCompare :: "string \<Rightarrow> string \<Rightarrow> int" where
  "codeUnitCompare [] [] = 0"
| "codeUnitCompare [] (y # ys) = - 1"
| "codeUnitCompare (x # xs) [] = 1"
| "codeUnitCompare (x # xs) (y # ys) =
     (if (of_char x :: nat) < of_char y then - 1
      else if (of_char y :: nat) < of_char x then 1
      else codeUnitCompare xs ys)"

definition entityRef :: "string \<Rightarrow> json" where
  "entityRef i = JObj [(''id'', JStr i)]"

definition token :: "string \<Rightarrow> string \<Rightarrow> json" where
  "token i symbol = JObj [(''id'', JStr i), (''symbol'', JStr symbol)]"

definition relationPayload :: "json list \<Rightarrow> contractIPLD option" where
  "relationPayload tokens =
     Some \<lparr>block = \<lparr>block_cid = ''bafyX'', block_number = 6, block_hash = ''0xh6''\<rparr>,
           contractAddress = ''0xc1'', cid = ''bafyD'', kind = ''diff'',
           data = Some (JObj [(''meta'', JObj []),
                              (''state'', JObj [(''Pool'', JObj [(''0x01'',
                                  JObj [(''id'', JStr ''0x01''), (''tokens'', JArr tokens)])])])])\<rparr>"

section \<open>Properties of the state verifier\<close>

lemma json_equal_metaData:
  "json_equal (expectedMetaData r q) (metaData a k p c n) \<longleftrightarrow>
     a = contractAddress r \<and> k = kind r \<and> q = JStr p \<and>
     c = block_cid (block r) \<and> n = block_number (block r)"
proof (cases q)
  case (JStr s)
  then show ?thesis
    by (auto simp: expectedMetaData_def metaData_def)
qed (auto simp: expectedMetaData_def metaData_def)

lemma js_get_meta_head:
  "js_get (JObj ((''meta'', v) # rest)) ''meta'' = Inr v"
  by simp

lemma js_get_metaData_parent:
  "js_get (metaData a k p c n) ''parent'' = Inr (JObj [(''/'', JStr p)])"
  by (simp add: metaData_def)

lemma js_get_link: "js_get (JObj [(''/'', v)]) ''/'' = Inr v"
  by simp

lemma json_equal_refl: "distinct_keys p \<Longrightarrow> json_equal p p"
proof (induction p)
  case (JArr xs)
  then show ?case
    by (auto simp: list_all2_map1 list_all_iff intro!: list_all2_same [THEN iffD2])
next
  case (JObj kvs)
  have "case map_of kvs k of Some w \<Rightarrow> json_equal v w | None \<Rightarrow> False"
    if "(k, v) \<in> set kvs" for k v
  proof -
    from JObj.prems that have "map_of kvs k = Some v" by simp
    moreover from JObj.prems that have "distinct_keys v" by (auto simp: list_all_iff)
    with JObj.IH that have "json_equal v v" by fastforce
    ultimately show ?thesis by simp
  qed
  then show ?case by (auto simp: list_all_iff)
qed simp_all

lemma json_equal_metaDataWith:
  "json_equal (expectedMetaData r q) (metaDataWith a k parent c n) \<longleftrightarrow>
     a = contractAddress r \<and> k = kind r \<and> json_equal (JObj [(''/'', q)]) parent \<and>
     c = block_cid (block r) \<and> n = block_number (block r)"
  by (auto simp: expectedMetaData_def metaDataWith_def)

text \<open>
  C9, as the verifier implements it. When the tracked diff CID of the contract is the
  empty string, the expected parent is the value that the record holds under the link
  key of its parent, whatever the value in the place of the parent is. A record that is
  checked is then reported for its parent exactly when its parent is not equal to the
  link built from that value, and reading the link key of a \<^verbatim>\<open>null\<close> or missing parent
  throws. So for a parent that is a link, whatever the link holds (a string, \<^verbatim>\<open>null\<close>,
  any parsed value), the outcome does not depend on the parent: the record is reported
  only for its id, kind or block reference.
\<close>

theorem checkIPLDMetaData_first_record:
  assumes "m (contractAddress r) = Some pc"
    and "diff pc = []"
    and "data r = Some (JObj ((''meta'', metaDataWith a k parent c n) # rest))"
  shows "fst (checkIPLDMetaData (Some r) m rawJson) =
           (if cid r = [] \<or> cid r = checkpoint pc then Inr None
            else case js_get parent ''/'' of
                   Inl e \<Rightarrow> Inl e
                 | Inr actualParentCID \<Rightarrow>
                     Inr (Some (a \<noteq> contractAddress r \<or> k \<noteq> kind r \<or>
                                c \<noteq> block_cid (block r) \<or> n \<noteq> block_number (block r) \<or>
                                \<not> json_equal (JObj [(''/'', actualParentCID)]) parent)))
       \<and> (\<forall>p. parent = JObj [(''/'', p)] \<and> distinct_keys p \<longrightarrow>
             fst (checkIPLDMetaData (Some r) m rawJson) =
               (if cid r = [] \<or> cid r = checkpoint pc then Inr None
                else Inr (Some (a \<noteq> contractAddress r \<or> k \<noteq> kind r \<or>
                                c \<noteq> block_cid (block r) \<or> n \<noteq> block_number (block r)))))"
proof -
  have g: "js_get (metaDataWith a k parent c n) ''parent'' = Inr parent"
    by (simp add: metaDataWith_def)
  have 1: "fst (checkIPLDMetaData (Some r) m rawJson) =
           (if cid r = [] \<or> cid r = checkpoint pc then Inr None
            else case js_get parent ''/'' of
                   Inl e \<Rightarrow> Inl e
                 | Inr actualParentCID \<Rightarrow>
                     Inr (Some (a \<noteq> contractAddress r \<or> k \<noteq> kind r \<or>
                                c \<noteq> block_cid (block r) \<or> n \<noteq> block_number (block r) \<or>
                                \<not> json_equal (JObj [(''/'', actualParentCID)]) parent)))"
    using assms
    by (auto simp: checkIPLDMetaData_def Let_def compareObjects_def expectedParentCID_def
        json_equal_metaDataWith g split: sum.splits)
  have 2: "json_equal (JObj [(''/'', p)]) (JObj [(''/'', p)])" if "distinct_keys p" for p
    using json_equal_refl [of p] that by simp
  show ?thesis
    using 1 2 by auto
qed

theorem checkIPLDMetaData_first_record_witness:
  "fst (checkIPLDMetaData
     (Some \<lparr>block = \<lparr>block_cid = ''bafyX'', block_number = 6, block_hash = ''0xh6''\<rparr>,
            contractAddress = ''0xc1'', cid = ''bafyB'', kind = ''diff'',
            data = Some (JObj [(''meta'', metaDataWith ''0xc1'' ''diff''
                                            (JObj [(''/'', JStr ''bafyUnknown'')]) ''bafyX'' 6),
                               (''state'', JObj [])])\<rparr>)
     [''0xc1'' \<mapsto> \<lparr>diff = [], checkpoint = []\<rparr>] False) = Inr (Some False)
   \<and> fst (checkIPLDMetaData
     (Some \<lparr>block = \<lparr>block_cid = ''bafyX'', block_number = 6, block_hash = ''0xh6''\<rparr>,
            contractAddress = ''0xc1'', cid = ''bafyB'', kind = ''diff'',
            data = Some (JObj [(''meta'', metaDataWith ''0xc1'' ''diff''
                                            (JObj [(''/'', JNull)]) ''bafyX'' 6),
                               (''state'', JObj [])])\<rparr>)
     [''0xc1'' \<mapsto> \<lparr>diff = [], checkpoint = []\<rparr>] False) = Inr (Some False)"
  using checkIPLDMetaData_first_record
    [where m = "[''0xc1'' \<mapsto> \<lparr>diff = [], checkpoint = []\<rparr>]"
       and r = "\<lparr>block = \<lparr>block_cid = ''bafyX'', block_number = 6, block_hash = ''0xh6''\<rparr>,
            contractAddress = ''0xc1'', cid = ''bafyB'', kind = ''diff'',
            data = Some (JObj [(''meta'', metaDataWith ''0xc1'' ''diff''
                                            (JObj [(''/'', JStr ''bafyUnknown'')]) ''bafyX'' 6),
                               (''state'', JObj [])])\<rparr>"
       and pc = "\<lparr>diff = [], checkpoint = []\<rparr>" and a = "''0xc1''" and k = "''diff''"
       and parent = "JObj [(''/'', JStr ''bafyUnknown'')]" and c = "''bafyX''" and n = 6
       and rest = "[(''state'', JObj [])]" and rawJson = False]
    checkIPLDMetaData_first_record
    [where m = "[''0xc1'' \<mapsto> \<lparr>diff = [], checkpoint = []\<rparr>]"
       and r = "\<lparr>block = \<lparr>block_cid = ''bafyX'', block_number = 6, block_hash = ''0xh6''\<rparr>,
            contractAddress = ''0xc1'', cid = ''bafyB'', kind = ''diff'',
            data = Some (JObj [(''meta'', metaDataWith ''0xc1'' ''diff''
                                            (JObj [(''/'', JNull)]) ''bafyX'' 6),
                               (''state'', JObj [])])\<rparr>"
       and pc = "\<lparr>diff = [], checkpoint = []\<rparr>" and a = "''0xc1''" and k = "''diff''"
       and parent = "JObj [(''/'', JNull)]" and c = "''bafyX''" and n = 6
       and rest = "[(''state'', JObj [])]" and rawJson = False]
  by simp

text \<open>
  C9, as stated, fails for a parent that is not a link. The first record of a contract
  claims its parent as a bare string: the verifier reads the link key of the string,
  finds nothing, expects a link that holds \<^verbatim>\<open>undefined\<close> and reports the record, although
  its id, kind and block reference are right. The same record with the CID inside a
  link is not reported.
\<close>

theorem checkIPLDMetaData_first_record_counterexample:
  "fst (checkIPLDMetaData
     (Some \<lparr>block = \<lparr>block_cid = ''bafyX'', block_number = 6, block_hash = ''0xh6''\<rparr>,
            contractAddress = ''0xc1'', cid = ''bafyB'', kind = ''diff'',
            data = Some (JObj [(''meta'', metaDataWith ''0xc1'' ''diff''
                                            (JStr ''bafyP'') ''bafyX'' 6),
                               (''state'', JObj [])])\<rparr>)
     [''0xc1'' \<mapsto> \<lparr>diff = [], checkpoint = []\<rparr>] False) = Inr (Some True)
   \<and> fst (checkIPLDMetaData
     (Some \<lparr>block = \<lparr>block_cid = ''bafyX'', block_number = 6, block_hash = ''0xh6''\<rparr>,
            contractAddress = ''0xc1'', cid = ''bafyB'', kind = ''diff'',
            data = Some (JObj [(''meta'', metaDataWith ''0xc1'' ''diff''
                                            (JObj [(''/'', JStr ''bafyP'')]) ''bafyX'' 6),
                               (''state'', JObj [])])\<rparr>)
     [''0xc1'' \<mapsto> \<lparr>diff = [], checkpoint = []\<rparr>] False) = Inr (Some False)"
  by (simp add: checkIPLDMetaData_def Let_def compareObjects_def expectedParentCID_def
        expectedMetaData_def metaDataWith_def)

text \<open>
  C1, as the verifier implements it. For a record that is checked (its CID differs from
  both tracked CIDs) while a diff CID is tracked, a difference is reported exactly when
  the id, the kind or the block reference in the record's meta data differ from the
  record's own, or the claimed parent is neither the tracked diff CID nor the tracked
  (non-empty) checkpoint CID. This holds for every kind of record, and the tracked CIDs
  are updated whatever the outcome.
\<close>

theorem checkIPLDMetaData_reports:
  assumes "m (contractAddress r) = Some pc"
    and "diff pc \<noteq> []"
    and "cid r \<noteq> diff pc"
    and "cid r \<noteq> checkpoint pc"
    and "data r = Some (JObj ((''meta'', metaData a k p c n) # rest))"
  shows "checkIPLDMetaData (Some r) m rawJson =
           (Inr (Some (a \<noteq> contractAddress r \<or> k \<noteq> kind r \<or>
                       c \<noteq> block_cid (block r) \<or> n \<noteq> block_number (block r) \<or>
                       (p \<noteq> diff pc \<and> (checkpoint pc = [] \<or> p \<noteq> checkpoint pc)))),
            m(contractAddress r \<mapsto>
               (if kind r = ''checkpoint''
                then \<lparr>diff = diff pc, checkpoint = cid r\<rparr>
                else \<lparr>diff = cid r, checkpoint = []\<rparr>)))"
  using assms
  by (auto simp: checkIPLDMetaData_def Let_def compareObjects_def expectedParentCID_def
        json_equal_metaData js_get_metaData_parent)

theorem checkIPLDMetaData_reports_witness:
  "checkIPLDMetaData
     (Some \<lparr>block = \<lparr>block_cid = ''bafyX'', block_number = 6, block_hash = ''0xh6''\<rparr>,
            contractAddress = ''0xc1'', cid = ''bafyD2'', kind = ''diff'',
            data = Some (JObj [(''meta'', metaData ''0xc1'' ''diff'' ''bafyOther'' ''bafyX'' 6),
                               (''state'', JObj [])])\<rparr>)
     [''0xc1'' \<mapsto> \<lparr>diff = ''bafyD1'', checkpoint = ''bafyC1''\<rparr>] False =
   (Inr (Some True), [''0xc1'' \<mapsto> \<lparr>diff = ''bafyD2'', checkpoint = []\<rparr>])"
  using checkIPLDMetaData_reports
    [of "[''0xc1'' \<mapsto> \<lparr>diff = ''bafyD1'', checkpoint = ''bafyC1''\<rparr>]"
        "\<lparr>block = \<lparr>block_cid = ''bafyX'', block_number = 6, block_hash = ''0xh6''\<rparr>,
            contractAddress = ''0xc1'', cid = ''bafyD2'', kind = ''diff'',
            data = Some (JObj [(''meta'', metaData ''0xc1'' ''diff'' ''bafyOther'' ''bafyX'' 6),
                               (''state'', JObj [])])\<rparr>"
        "\<lparr>diff = ''bafyD1'', checkpoint = ''bafyC1''\<rparr>"
        "''0xc1''" "''diff''" "''bafyOther''" "''bafyX''" 6 "[(''state'', JObj [])]" False]
  by simp

text \<open>
  C1, as stated, fails in both directions. A diff whose parent is the tracked diff CID
  (no checkpoint tracked) is reported because the block number in its meta data is 5
  while the record sits in block 6. A checkpoint that claims the older tracked diff as
  its parent, while a newer checkpoint is tracked, is not reported.
\<close>

theorem checkIPLDMetaData_parenting_counterexample:
  "fst (checkIPLDMetaData
     (Some \<lparr>block = \<lparr>block_cid = ''bafyX'', block_number = 6, block_hash = ''0xh6''\<rparr>,
            contractAddress = ''0xc1'', cid = ''bafyB'', kind = ''diff'',
            data = Some (JObj [(''meta'', metaData ''0xc1'' ''diff'' ''bafyA'' ''bafyX'' 5),
                               (''state'', JObj [])])\<rparr>)
     [''0xc1'' \<mapsto> \<lparr>diff = ''bafyA'', checkpoint = []\<rparr>] False) = Inr (Some True)
   \<and> \<not> spec_violates_parenting \<lparr>diff = ''bafyA'', checkpoint = []\<rparr> ''diff'' ''bafyA''
   \<and> fst (checkIPLDMetaData
     (Some \<lparr>block = \<lparr>block_cid = ''bafyX'', block_number = 6, block_hash = ''0xh6''\<rparr>,
            contractAddress = ''0xc1'', cid = ''bafyC2'', kind = ''checkpoint'',
            data = Some (JObj [(''meta'', metaData ''0xc1'' ''checkpoint'' ''bafyD1'' ''bafyX'' 6),
                               (''state'', JObj [])])\<rparr>)
     [''0xc1'' \<mapsto> \<lparr>diff = ''bafyD1'', checkpoint = ''bafyC1''\<rparr>] False) = Inr (Some False)
   \<and> spec_violates_parenting \<lparr>diff = ''bafyD1'', checkpoint = ''bafyC1''\<rparr> ''checkpoint'' ''bafyD1''"
  by (simp add: checkIPLDMetaData_def Let_def compareObjects_def expectedParentCID_def
        expectedMetaData_def metaData_def spec_violates_parenting_def spec_previous_cid_def)

section \<open>Properties of \<^verbatim>\<open>addQuery\<close>\<close>

lemma Database_addQuery_adds_name:
  assumes "Database_addQuery g t name ps rs db = Inr db'"
  shows "name \<in> dq_name ` set (db_queries db')"
  using assms
  by (auto simp: Database_addQuery_def Let_def image_iff split: if_splits sum.splits)

lemma Client_addQuery_adds_name:
  assumes "Client_addQuery g t name ps cl = Inr cl'"
  shows "name \<in> cq_name ` set (cl_queries cl')"
  using assms
  by (auto simp: Client_addQuery_def Let_def image_iff split: if_splits sum.splits)

text \<open>
  C10. \<^verbatim>\<open>addQuery\<close> with a name under which a query is already stored returns at once:
  the \<^verbatim>\<open>Database\<close> and the \<^verbatim>\<open>Client\<close> are left exactly as they were, whatever the
  parameters of the second call, so the stored list gains no entry and the first
  registration stays.
\<close>

theorem addQuery_idempotent:
  assumes "name \<in> dq_name ` set (db_queries db)"
    and "name \<in> cq_name ` set (cl_queries cl)"
  shows "Database_addQuery g t name ps rs db = Inr db \<and>
         Client_addQuery g t name ps cl = Inr cl"
  using assms by (auto simp: Database_addQuery_def Client_addQuery_def)

text \<open>Registering a name twice: the second call changes nothing.\<close>

lemma addQuery_twice:
  "Database_addQuery g t name ps rs db = Inr db' \<Longrightarrow>
     Database_addQuery g t name ps2 rs2 db' = Inr db'"
  "Client_addQuery g t name ps cl = Inr cl' \<Longrightarrow>
     Client_addQuery g t name ps2 cl' = Inr cl'"
  using Database_addQuery_adds_name [of g t name ps rs db db']
    Client_addQuery_adds_name [of g t name ps cl cl']
  by (auto simp: Database_addQuery_def Client_addQuery_def)

theorem addQuery_idempotent_witness:
  "''balanceOf'' \<in> dq_name ` set (db_queries
      \<lparr>db_queries = [\<lparr>dq_name = ''balanceOf'', dq_entityName = ''BalanceOf'',
                       dq_getQueryName = ''getBalanceOf'', dq_saveQueryName = ''saveBalanceOf'',
                       dq_params = [\<lparr>param_name = ''owner'', param_type = ''string''\<rparr>],
                       dq_returnParameters = [''uint256'']\<rparr>],
        db_subgraphEntities = [], db_templateString = []\<rparr>)
   \<and> ''balanceOf'' \<in> cq_name ` set (cl_queries
      \<lparr>cl_queries = [\<lparr>cq_name = ''balanceOf'', cq_getQueryName = ''getBalanceOf'',
                       cq_params = [\<lparr>param_name = ''owner'', param_type = ''string''\<rparr>]\<rparr>],
        cl_templateString = []\<rparr>)
   \<and> Database_addQuery (\<lambda>s. Some ''String'') (\<lambda>s. Some ''string'') ''balanceOf''
        [\<lparr>param_name = ''account'', param_type = ''address''\<rparr>] [''bool'']
      \<lparr>db_queries = [\<lparr>dq_name = ''balanceOf'', dq_entityName = ''BalanceOf'',
                       dq_getQueryName = ''getBalanceOf'', dq_saveQueryName = ''saveBalanceOf'',
                       dq_params = [\<lparr>param_name = ''owner'', param_type = ''string''\<rparr>],
                       dq_returnParameters = [''uint256'']\<rparr>],
        db_subgraphEntities = [], db_templateString = []\<rparr>
     = Inr \<lparr>db_queries = [\<lparr>dq_name = ''balanceOf'', dq_entityName = ''BalanceOf'',
                       dq_getQueryName = ''getBalanceOf'', dq_saveQueryName = ''saveBalanceOf'',
                       dq_params = [\<lparr>param_name = ''owner'', param_type = ''string''\<rparr>],
                       dq_returnParameters = [''uint256'']\<rparr>],
        db_subgraphEntities = [], db_templateString = []\<rparr>
   \<and> Client_addQuery (\<lambda>s. Some ''String'') (\<lambda>s. Some ''string'') ''balanceOf''
        [\<lparr>param_name = ''account'', param_type = ''address''\<rparr>]
      \<lparr>cl_queries = [\<lparr>cq_name = ''balanceOf'', cq_getQueryName = ''getBalanceOf'',
                       cq_params = [\<lparr>param_name = ''owner'', param_type = ''string''\<rparr>]\<rparr>],
        cl_templateString = []\<rparr>
     = Inr \<lparr>cl_queries = [\<lparr>cq_name = ''balanceOf'', cq_getQueryName = ''getBalanceOf'',
                       cq_params = [\<lparr>param_name = ''owner'', param_type = ''string''\<rparr>]\<rparr>],
        cl_templateString = []\<rparr>"
proof -
  let ?db = "\<lparr>db_queries = [\<lparr>dq_name = ''balanceOf'', dq_entityName = ''BalanceOf'',
                       dq_getQueryName = ''getBalanceOf'', dq_saveQueryName = ''saveBalanceOf'',
                       dq_params = [\<lparr>param_name = ''owner'', param_type = ''string''\<rparr>],
                       dq_returnParameters = [''uint256'']\<rparr>],
        db_subgraphEntities = [], db_templateString = []\<rparr>"
  let ?cl = "\<lparr>cl_queries = [\<lparr>cq_name = ''balanceOf'', cq_getQueryName = ''getBalanceOf'',
                       cq_params = [\<lparr>param_name = ''owner'', param_type = ''string''\<rparr>]\<rparr>],
        cl_templateString = []\<rparr>"
  have d: "''balanceOf'' \<in> dq_name ` set (db_queries ?db)" by simp
  have c: "''balanceOf'' \<in> cq_name ` set (cl_queries ?cl)" by simp
  from d c addQuery_idempotent [OF d c] show ?thesis by blast
qed

section \<open>Properties of the chain client\<close>

lemma is_future_block_error_iff:
  "is_future_block_error err \<longleftrightarrow>
     err = Thrown (Some ''SERVER_ERROR'') (Some (Some future_epoch_message))"
  by (cases err) (auto simp: SERVER_ERROR_def)

text \<open>
  C3. When the provider rejects the block request, \<^verbatim>\<open>getBlocks\<close> returns an empty node
  list if the error is the server error with the future-epoch message, and rethrows the
  error to the caller in every other case.
\<close>

theorem getBlocks_upstream_error:
  assumes "blockHashOrBlockNumber ext blockNumber blockHash = Some tag"
    and "tag \<noteq> []"
    and "send p (rpc_method blockHash) [PString tag, PBool False] = Inl err"
  shows "fst (getBlocks ext p blockNumber blockHash st) =
           (if err = Thrown (Some ''SERVER_ERROR'') (Some (Some future_epoch_message))
            then Inr [] else Inl err)"
  using assms by (auto simp: getBlocks_def Let_def is_future_block_error_iff)

theorem getBlocks_upstream_error_witness:
  "fst (getBlocks ext0
          (node_provider (Inl (Thrown (Some ''SERVER_ERROR'') (Some (Some future_epoch_message)))) [])
          (Some 100) None \<lparr>cache = None, requests = []\<rparr>) = Inr []
   \<and> fst (getBlocks ext0
          (node_provider (Inl (Thrown (Some ''TIMEOUT'') None)) [])
          (Some 100) None \<lparr>cache = None, requests = []\<rparr>) = Inl (Thrown (Some ''TIMEOUT'') None)"
proof -
  have tag: "blockHashOrBlockNumber ext0 (Some 100) None = Some ''0x64''"
    by (simp add: blockHashOrBlockNumber_def ext0_def)
  have ne: "''0x64'' \<noteq> []" by simp
  have s1: "send (node_provider (Inl (Thrown (Some ''SERVER_ERROR'') (Some (Some future_epoch_message)))) [])
              (rpc_method None) [PString ''0x64'', PBool False]
            = Inl (Thrown (Some ''SERVER_ERROR'') (Some (Some future_epoch_message)))"
    by (simp add: node_provider_def)
  have s2: "send (node_provider (Inl (Thrown (Some ''TIMEOUT'') None)) [])
              (rpc_method None) [PString ''0x64'', PBool False]
            = Inl (Thrown (Some ''TIMEOUT'') None)"
    by (simp add: node_provider_def)
  show ?thesis
    using getBlocks_upstream_error [OF tag ne s1] getBlocks_upstream_error [OF tag ne s2]
    by simp
qed

lemma bnd_Inr [simp]: "bnd (Inr x) f = f x"
  by (simp add: bnd_def)

lemma bnd_Inl [simp]: "bnd (Inl e) f = Inl e"
  by (simp add: bnd_def)

lemma bnd_eq_Inr: "bnd r f = Inr y \<longleftrightarrow> (\<exists>x. r = Inr x \<and> f x = Inr y)"
  by (cases r) auto

lemma bnd_assoc: "bnd (bnd r f) g = bnd r (\<lambda>x. bnd (f x) g)"
  by (cases r) auto

lemma map_throwing_Cons_bnd:
  "map_throwing f (x # xs) = bnd (f x) (\<lambda>y. bnd (map_throwing f xs) (\<lambda>ys. Inr (y # ys)))"
  by (simp add: bnd_def split: sum.splits)

text \<open>
  The header literal of the source is the table of the specification, read from top to
  bottom: same entries, same raw block keys, same conversions, same order, and the same
  error when a step throws.
\<close>

lemma blockHeader_refines:
  "blockHeader ext rawBlock = map_throwing (spec_header_entry ext rawBlock) spec_header_fields"
  unfolding blockHeader_def spec_header_fields_def
  by (simp only: map_throwing_Cons_bnd map_throwing.simps(1) spec_header_entry.simps
        bnd_assoc bnd_Inr)

lemma map_fst_header:
  "map_throwing (spec_header_entry ext rawBlock) fs = Inr header \<Longrightarrow>
     map fst header = map fst fs"
proof (induction fs arbitrary: header)
  case Nil
  then show ?case by simp
next
  case (Cons f fs)
  obtain name key conv where f: "f = (name, key, conv)"
    by (cases f)
  from Cons.prems obtain y ys
    where y: "spec_header_entry ext rawBlock f = Inr y"
      and ys: "map_throwing (spec_header_entry ext rawBlock) fs = Inr ys"
      and h: "header = y # ys"
    by (auto split: sum.splits)
  have "fst y = name"
    using y f by (cases conv) (auto simp: bnd_eq_Inr)
  with Cons.IH [OF ys] h f show ?case by simp
qed


lemma js_get_JObj: "js_get (JObj kvs) k = Inr (field_of kvs k)"
  by (simp add: field_of_def)

lemma getFullBlocks_sent:
  assumes "blockHashOrBlockNumber ext blockNumber blockHash = Some tag" and "tag \<noteq> []"
  shows "getFullBlocks ext p blockNumber blockHash st =
           (bnd (send p (rpc_method blockHash) [PString tag, PBool False]) (\<lambda>rawBlock.
            bnd (blockHeader ext rawBlock) (\<lambda>header.
            bnd (full_block_node_of ext p rawBlock (encodeHeader ext header)) (\<lambda>node.
              Inr [node]))),
            st\<lparr>requests := requests st @
                              [ReqSend (rpc_method blockHash) [PString tag, PBool False]]\<rparr>)"
  using assms by (simp add: getFullBlocks_def Let_def)

text \<open>A header step that throws makes \<^verbatim>\<open>getFullBlocks\<close> throw the same error.\<close>

lemma getFullBlocks_header_throws:
  assumes "blockHashOrBlockNumber ext blockNumber blockHash = Some tag" and "tag \<noteq> []"
    and "send p (rpc_method blockHash) [PString tag, PBool False] = Inr rawBlock"
    and "blockHeader ext rawBlock = Inl e"
  shows "fst (getFullBlocks ext p blockNumber blockHash st) = Inl e"
  using assms by (simp add: getFullBlocks_sent)

lemma full_block_node_data:
  "full_block_node_of ext p rawBlock rlpData = Inr node \<Longrightarrow>
     fn_blockByMhKey_data node = escapeHexString ext rlpData"
  by (auto simp: full_block_node_of_def bnd_eq_Inr)


lemma read_integer_examples:
  "read_integer ''0x2'' = Some 2"
  "read_integer ''0x64'' = Some 100"
  "read_integer ''0xc8'' = Some 200"
  "read_integer ''0x1c9c380'' = Some 30000000"
  "read_integer ''0x5208'' = Some 21000"
  "read_integer ''0x6553f100'' = Some 1700000000"
  "read_integer ''0x0000000000000000'' = Some 0"
  "read_integer ''0x7'' = Some 7"
  "read_integer ''5'' = Some 5"
  "read_integer ''05'' = Some 5"
  by (simp_all add: read_integer_def digit_of_def)

lemma sent0: "send (node_provider answer chain) m ps = answer"
  by (simp add: node_provider_def)

lemma tag0: "blockHashOrBlockNumber ext0 (Some 100) None = Some ''0x64''"
  by (simp add: blockHashOrBlockNumber_def ext0_def)



subsection \<open>The caching layer\<close>

lemma getCachedOrFetch_hit:
  "cache st = Some c \<Longrightarrow> c (q, vars) = Some v \<Longrightarrow>
     getCachedOrFetch q vars fetch st = (Inr v, st)"
  by (simp add: getCachedOrFetch_def)

lemma getStorageAt_hit:
  assumes "cache st = Some c"
    and "c (''getStorageAt'', storage_vars blockHash contract (''0x'' @ padKey ext slot)) = Some v"
  shows "getStorageAt ext p blockHash contract slot st =
           (Inr \<lparr>sr_value = v, sr_proof_data = ''null''\<rparr>, st)"
  using assms by (simp add: getStorageAt_def Let_def getCachedOrFetch_hit)

lemma getStorageAt_miss:
  assumes "cache st = Some c"
    and "c (''getStorageAt'', storage_vars blockHash contract (''0x'' @ padKey ext slot)) = None"
    and "p_getStorageAt p contract (''0x'' @ padKey ext slot) blockHash = Inr x"
  shows "getStorageAt ext p blockHash contract slot st =
     (Inr \<lparr>sr_value = CachedStorage x, sr_proof_data = ''null''\<rparr>,
      st\<lparr>requests := requests st @ [ReqGetStorageAt contract (''0x'' @ padKey ext slot) blockHash],
         cache := Some (c((''getStorageAt'',
                           storage_vars blockHash contract (''0x'' @ padKey ext slot))
                          \<mapsto> CachedStorage x))\<rparr>)"
  using assms by (simp add: getStorageAt_def Let_def getCachedOrFetch_def)

lemma getStorageAt_miss_error:
  assumes "cache st = Some c"
    and "c (''getStorageAt'', storage_vars blockHash contract (''0x'' @ padKey ext slot)) = None"
    and "p_getStorageAt p contract (''0x'' @ padKey ext slot) blockHash = Inl e"
  shows "getStorageAt ext p blockHash contract slot st =
     (Inl e,
      st\<lparr>requests := requests st @
                        [ReqGetStorageAt contract (''0x'' @ padKey ext slot) blockHash]\<rparr>)"
  using assms by (simp add: getStorageAt_def Let_def getCachedOrFetch_def)

lemma fetchLogs_cache: "fetchLogs ext p bn addrs st = (r, st1) \<Longrightarrow> cache st1 = cache st"
  by (auto simp: fetchLogs_def Let_def split: sum.splits if_splits)

text \<open>
  The requests of the fetch: one per address, then the unfiltered one when every
  per-address request was answered and no log came back.
\<close>

lemma fetchLogs_requests:
  "requests (snd (fetchLogs ext p bn addrs st)) =
     requests st @
     map (\<lambda>a. ReqGetLogs \<lparr>fromBlock = js_Number ext (JStr bn),
                           toBlock = js_Number ext (JStr bn), f_address = Some a\<rparr>) addrs @
     (case map_throwing (p_getLogs p)
             (map (\<lambda>a. \<lparr>fromBlock = js_Number ext (JStr bn),
                         toBlock = js_Number ext (JStr bn), f_address = Some a\<rparr>) addrs) of
        Inl e \<Rightarrow> []
      | Inr logsByAddress \<Rightarrow>
          if concat logsByAddress = []
          then [ReqGetLogs \<lparr>fromBlock = js_Number ext (JStr bn),
                            toBlock = js_Number ext (JStr bn), f_address = None\<rparr>]
          else [])"
  by (auto simp: fetchLogs_def Let_def comp_def split: sum.splits)

lemma getLogs_hit:
  assumes "cache st = Some c"
    and "c (''getLogs'', logs_vars blockHash blockNumber addresses) = Some (CachedLogs ls)"
  shows "requests (snd (getLogs ext p blockHash blockNumber addresses st)) =
           requests st @ map ReqGetTransactionReceipt (set_in_order (map log_transactionHash ls))"
    and "cache (snd (getLogs ext p blockHash blockNumber addresses st)) = Some c"
    and "fst (getLogs ext p blockHash blockNumber addresses st) = Inr es \<Longrightarrow>
           map (\<lambda>e. (le_account_address e, le_transaction_hash e, le_topics e, le_data e,
                      le_index e)) es
           = map (\<lambda>l. (log_address l, log_transactionHash l, log_topics l, log_data l,
                        log_logIndex l)) ls"
  using assms
  by (auto simp: getLogs_def Let_def getCachedOrFetch_hit comp_def split: sum.splits if_splits)

lemma getLogs_miss:
  assumes "cache st = Some c"
    and "c (''getLogs'', logs_vars blockHash blockNumber addresses) = None"
    and "fetchLogs ext p blockNumber (case addresses of None \<Rightarrow> [] | Some as \<Rightarrow> as) st
           = (Inr (CachedLogs ls), st1)"
  shows "cache (snd (getLogs ext p blockHash blockNumber addresses st)) =
           Some (c((''getLogs'', logs_vars blockHash blockNumber addresses) \<mapsto> CachedLogs ls))"
    and "requests (snd (getLogs ext p blockHash blockNumber addresses st)) =
           requests st1 @ map ReqGetTransactionReceipt (set_in_order (map log_transactionHash ls))"
    and "fst (getLogs ext p blockHash blockNumber addresses st) = Inr es \<Longrightarrow>
           map (\<lambda>e. (le_account_address e, le_transaction_hash e, le_topics e, le_data e,
                      le_index e)) es
           = map (\<lambda>l. (log_address l, log_transactionHash l, log_topics l, log_data l,
                        log_logIndex l)) ls"
  using assms fetchLogs_cache [OF assms(3)]
  by (auto simp: getLogs_def Let_def getCachedOrFetch_def comp_def split: sum.splits if_splits)

lemma getLogs_miss_error:
  assumes "cache st = Some c"
    and "c (''getLogs'', logs_vars blockHash blockNumber addresses) = None"
    and "fetchLogs ext p blockNumber (case addresses of None \<Rightarrow> [] | Some as \<Rightarrow> as) st
           = (Inl e, st1)"
  shows "getLogs ext p blockHash blockNumber addresses st = (Inl e, st1)"
  using assms by (simp add: getLogs_def Let_def getCachedOrFetch_def)

text \<open>
  The block reads never touch the cache: the state they return differs from the one they
  were given by the block request at most, and their result is the same whatever the
  cache holds.
\<close>

lemma getBlocks_uncached:
  "getBlocks ext p blockNumber blockHash st =
     (fst (getBlocks ext p blockNumber blockHash \<lparr>cache = None, requests = []\<rparr>),
      st\<lparr>requests := requests st @
           (case blockHashOrBlockNumber ext blockNumber blockHash of
              None \<Rightarrow> []
            | Some tag \<Rightarrow>
                if tag = [] then []
                else [ReqSend (rpc_method blockHash) [PString tag, PBool False]])\<rparr>)"
  by (simp add: getBlocks_def Let_def split: option.splits sum.splits)

lemma getFullBlocks_uncached:
  "getFullBlocks ext p blockNumber blockHash st =
     (fst (getFullBlocks ext p blockNumber blockHash \<lparr>cache = None, requests = []\<rparr>),
      st\<lparr>requests := requests st @
           (case blockHashOrBlockNumber ext blockNumber blockHash of
              None \<Rightarrow> []
            | Some tag \<Rightarrow>
                if tag = [] then []
                else [ReqSend (rpc_method blockHash) [PString tag, PBool False]])\<rparr>)"
  by (simp add: getFullBlocks_def Let_def split: option.splits sum.splits)


lemma toLowerCase_0xaa: "toLowerCase ''0xaa'' = ''0xaa''"
  by code_simp

lemma toLowerCase_examples:
  "toLowerCase ''0xaa'' = ''0xaa''"
  "toLowerCase ''0xbb'' = ''0xbb''"
  by code_simp+

lemma Number_5: "js_Number ext0 (JStr ''5'') = Some 5"
  by (simp add: js_Number_def ext0_def read_integer_examples)

lemma fetchLogs_log5:
  "fetchLogs ext0 (node_provider (Inr JNull) [log5 ''0xaa'']) ''5'' [''0xaa'']
     \<lparr>cache = Some Map.empty, requests = []\<rparr>
    = (Inr (CachedLogs [log5 ''0xaa'']),
       \<lparr>cache = Some Map.empty,
        requests = [ReqGetLogs \<lparr>fromBlock = Some 5, toBlock = Some 5, f_address = Some ''0xaa''\<rparr>]\<rparr>)"
  by (simp add: fetchLogs_def node_provider_def node_getLogs_def in_range_def log5_def
        toLowerCase_0xaa Number_5 Let_def)



text \<open>
  The cache of \<^verbatim>\<open>getLogs\<close> is keyed by the text of the block number: logs cached for
  block \<^verbatim>\<open>5\<close> are not found when the same block is asked for as \<^verbatim>\<open>05\<close>, although both
  texts read as the number 5.
\<close>

lemma getLogs_key_is_text:
  "logs_vars ''0xh5'' ''5'' (Some [''0xaa'']) \<noteq> logs_vars ''0xh5'' ''05'' (Some [''0xaa''])"
  "js_Number ext0 (JStr ''5'') = js_Number ext0 (JStr ''05'')"
  "requests (snd (getLogs ext0 (node_provider (Inr JNull) [log5 ''0xaa'']) ''0xh5'' ''05''
        (Some [''0xaa''])
        \<lparr>cache = Some [logs_key0 \<mapsto> CachedLogs [log5 ''0xaa'']], requests = []\<rparr>))
     = [ReqGetLogs \<lparr>fromBlock = Some 5, toBlock = Some 5, f_address = Some ''0xaa''\<rparr>,
        ReqGetTransactionReceipt ''0xt1'']"
  by (simp_all add: logs_vars_def js_Number_def ext0_def read_integer_examples getLogs_def
        getCachedOrFetch_def logs_key0_def fetchLogs_def node_provider_def node_getLogs_def
        in_range_def log5_def toLowerCase_0xaa set_in_order_def Let_def)

subsection \<open>The address filter of \<^verbatim>\<open>getLogs\<close>\<close>

text \<open>
  C2 at a failing input. Block 5 holds one log, emitted by the contract 0xbb, and the
  only watched address is 0xaa. The request for the logs of 0xaa returns nothing, so the
  client asks for the logs of the block without a filter and returns the log of 0xbb.
\<close>

theorem getLogs_unwatched_address:
  "fst (getLogs ext0 (node_provider (Inr JNull) [log5 ''0xbb'']) ''0xh5'' ''5'' (Some [''0xaa''])
          \<lparr>cache = None, requests = []\<rparr>)
   = Inr [\<lparr>le_account_address = ''0xbb'', le_transaction_hash = ''0xt1'',
           le_topics = [''0xtopic''], le_data = ''0x'', le_index = 0, le_status = Some 1\<rparr>]
   \<and> node_getLogs [log5 ''0xbb'']
       \<lparr>fromBlock = Some 5, toBlock = Some 5, f_address = Some ''0xaa''\<rparr> = []"
  by (simp add: getLogs_def getCachedOrFetch_def fetchLogs_def node_provider_def
        node_getLogs_def in_range_def log5_def Number_5 toLowerCase_examples set_in_order_def
        logs_vars_def Let_def)

text \<open>
  The two paths of the fetch on a node that answers every request. When the watched
  addresses emitted logs in the block, exactly those logs are returned, address by
  address. When they emitted none, the logs of the whole block are returned, whoever
  emitted them.
\<close>

lemma map_throwing_total: "map_throwing (\<lambda>x. Inr (g x)) xs = Inr (map g xs)"
  by (induction xs) auto

lemma fetchLogs_watched:
  assumes "concat (map (\<lambda>a. node_getLogs chain
              \<lparr>fromBlock = js_Number ext (JStr blockNumber),
               toBlock = js_Number ext (JStr blockNumber), f_address = Some a\<rparr>) addresses) \<noteq> []"
  shows "fst (fetchLogs ext (node_provider answer chain) blockNumber addresses st) =
           Inr (CachedLogs (map (\<lambda>l. l\<lparr>log_address := toLowerCase (log_address l)\<rparr>)
             (concat (map (\<lambda>a. node_getLogs chain
                \<lparr>fromBlock = js_Number ext (JStr blockNumber),
                 toBlock = js_Number ext (JStr blockNumber), f_address = Some a\<rparr>) addresses))))"
  using assms
  by (auto simp: fetchLogs_def node_provider_def map_throwing_total comp_def Let_def)

lemma fetchLogs_fallback:
  assumes "concat (map (\<lambda>a. node_getLogs chain
              \<lparr>fromBlock = js_Number ext (JStr blockNumber),
               toBlock = js_Number ext (JStr blockNumber), f_address = Some a\<rparr>) addresses) = []"
  shows "fst (fetchLogs ext (node_provider answer chain) blockNumber addresses st) =
           Inr (CachedLogs (map (\<lambda>l. l\<lparr>log_address := toLowerCase (log_address l)\<rparr>)
             (node_getLogs chain
                \<lparr>fromBlock = js_Number ext (JStr blockNumber),
                 toBlock = js_Number ext (JStr blockNumber), f_address = None\<rparr>)))"
  using assms
  by (simp add: fetchLogs_def node_provider_def map_throwing_total comp_def Let_def)

section \<open>Properties of \<^verbatim>\<open>fillState\<close>\<close>

text \<open>
  C6. If some stored state record has its block number in the inclusive range from
  \<open>startBlock\<close> to \<open>endBlock\<close>, \<^verbatim>\<open>fillState\<close> exits with code 1 and the indexer is
  exactly as before: none of its methods that write state was called.
\<close>

theorem fillState_existing_state:
  assumes "\<exists>r \<in> set (ipldBlocks s). startBlock \<le> st_blockNumber r \<and> st_blockNumber r \<le> endBlock"
  shows "fillState ops dataSources startBlock endBlock s = (s, Exit 1)"
proof -
  from assms have "getIPLDBlocks s startBlock endBlock \<noteq> []"
    by (auto simp: getIPLDBlocks_def filter_empty_conv)
  then show ?thesis
    by (simp add: fillState_def Let_def)
qed

theorem fillState_existing_state_witness:
  "(\<exists>r \<in> set (ipldBlocks store0). 200 \<le> st_blockNumber r \<and> st_blockNumber r \<le> 205)
   \<and> fillState ops0 [(''0xaa'', [''Slot''])] 200 205 store0 = (store0, Exit 1)"
proof -
  have h: "\<exists>r \<in> set (ipldBlocks store0). 200 \<le> st_blockNumber r \<and> st_blockNumber r \<le> 205"
    by (simp add: store0_def)
  from h fillState_existing_state [OF h] show ?thesis by blast
qed

text \<open>
  On the same store, the range from 200 to 201 holds no state record: the loop runs and
  an init record is written for each of the two blocks.
\<close>

lemma fillState_fresh_range:
  "fillState ops0 [(''0xaa'', [''Slot''])] 200 201 store0 =
     (\<lparr>ipldBlocks =
         [\<lparr>st_blockNumber = 202, st_blockHash = ''0xh202'', st_contractAddress = ''0xaa'',
           st_cid = ''bafyD'', st_kind = Diff\<rparr>,
          \<lparr>st_blockNumber = 200, st_blockHash = ''0xh200'', st_contractAddress = ''0xaa'',
           st_cid = ''bafyInit'', st_kind = Init\<rparr>,
          \<lparr>st_blockNumber = 201, st_blockHash = ''0xh201'', st_contractAddress = ''0xaa'',
           st_cid = ''bafyInit'', st_kind = Init\<rparr>],
       blockProgress =
         [\<lparr>bp_blockHash = ''0xh200'', bp_blockNumber = 200, bp_isPruned = False\<rparr>,
          \<lparr>bp_blockHash = ''0xh201'', bp_blockNumber = 201, bp_isPruned = False\<rparr>]\<rparr>,
      Returned)"
  by code_simp

section \<open>Properties of \<^verbatim>\<open>combineIPLDState\<close>\<close>

subsection \<open>The sort\<close>

lemma consistent_total: "consistent_comparator cmp \<Longrightarrow> cmp a b \<le> 0 \<or> cmp b a \<le> 0"
  unfolding consistent_comparator_def by (metis linorder_not_less order_less_imp_le)

lemma consistent_trans:
  "consistent_comparator cmp \<Longrightarrow> cmp a b \<le> 0 \<Longrightarrow> cmp b c \<le> 0 \<Longrightarrow> cmp a c \<le> 0"
  unfolding consistent_comparator_def by blast

lemma consistent_tie:
  assumes "consistent_comparator cmp" and "cmp a b \<le> 0" and "cmp b a \<le> 0"
  shows "cmp a b = 0"
proof (rule ccontr)
  assume "cmp a b \<noteq> 0"
  with assms(2) have "cmp a b < 0" by simp
  with assms(1) have "cmp b a > 0" unfolding consistent_comparator_def by blast
  with assms(3) show False by simp
qed

lemma consistent_on_ids:
  "consistent_comparator lc \<Longrightarrow> consistent_comparator (\<lambda>a b. lc (id_text a) (id_text b))"
  unfolding consistent_comparator_def by blast

lemma set_insert_by [simp]: "set (insert_by cmp x xs) = insert x (set xs)"
  by (induction xs) auto

lemma mset_insert_by [simp]: "mset (insert_by cmp x xs) = add_mset x (mset xs)"
  by (induction xs) auto

lemma mset_js_sort [simp]: "mset (js_sort cmp xs) = mset xs"
  by (induction xs) (auto simp: js_sort_def)

lemma set_js_sort [simp]: "set (js_sort cmp xs) = set xs"
  by (metis mset_js_sort set_mset_mset)

lemma length_js_sort [simp]: "length (js_sort cmp xs) = length xs"
  by (metis mset_js_sort size_mset)

lemma sorted_insert_by:
  assumes "consistent_comparator cmp" and "sorted_wrt (\<lambda>a b. cmp a b \<le> 0) xs"
  shows "sorted_wrt (\<lambda>a b. cmp a b \<le> 0) (insert_by cmp x xs)"
  using assms(2)
proof (induction xs)
  case Nil then show ?case by simp
next
  case (Cons y ys)
  show ?case
  proof (cases "cmp x y \<le> 0")
    case True
    with Cons.prems consistent_trans [OF assms(1)] show ?thesis by auto
  next
    case False
    with consistent_total [OF assms(1), of x y] have "cmp y x \<le> 0" by simp
    with False Cons show ?thesis by auto
  qed
qed

lemma sorted_js_sort:
  "consistent_comparator cmp \<Longrightarrow> sorted_wrt (\<lambda>a b. cmp a b \<le> 0) (js_sort cmp xs)"
  by (induction xs) (auto simp: js_sort_def intro: sorted_insert_by)

lemma sorted_wrt_take: "sorted_wrt P xs \<Longrightarrow> sorted_wrt P (take n xs)"
  by (metis append_take_drop_id sorted_wrt_append)

lemma sorted_wrt_short: "length xs \<le> 1 \<Longrightarrow> sorted_wrt P xs"
  by (cases xs) auto

lemma sorted_wrt_unique:
  assumes "sorted_wrt le xs" and "sorted_wrt le ys" and "mset xs = mset ys"
    and "\<And>x y. x \<in> set xs \<Longrightarrow> y \<in> set xs \<Longrightarrow> le x y \<Longrightarrow> le y x \<Longrightarrow> x = y"
  shows "xs = ys"
  using assms
proof (induction xs arbitrary: ys)
  case Nil
  then show ?case by simp
next
  case (Cons x xs)
  from Cons.prems(3) obtain y ys' where ys: "ys = y # ys'"
    by (cases ys) auto
  have set_eq: "set (x # xs) = set ys"
    using Cons.prems(3) by (metis set_mset_mset)
  have "x = y"
  proof (rule ccontr)
    assume ne: "x \<noteq> y"
    with set_eq ys have "x \<in> set ys'" by auto
    with Cons.prems(2) ys have 1: "le y x" by simp
    from ne set_eq ys have yin: "y \<in> set xs" by auto
    with Cons.prems(1) have 2: "le x y" by simp
    from Cons.prems(4) [of x y] yin 1 2 ne show False by simp
  qed
  with Cons.prems(3) ys have m: "mset xs = mset ys'" by simp
  from Cons.prems(1) have s1: "sorted_wrt le xs" by simp
  from Cons.prems(2) ys have s2: "sorted_wrt le ys'" by simp
  have "xs = ys'"
    by (rule Cons.IH [OF s1 s2 m]) (use Cons.prems(4) in auto)
  with \<open>x = y\<close> ys show ?case by simp
qed

lemma js_sort_perm:
  assumes "consistent_comparator cmp" and "mset xs = mset ys"
    and "\<And>x y. x \<in> set xs \<Longrightarrow> y \<in> set xs \<Longrightarrow> x \<noteq> y \<Longrightarrow> cmp x y \<noteq> 0"
  shows "js_sort cmp xs = js_sort cmp ys"
proof (rule sorted_wrt_unique [where le = "\<lambda>a b. cmp a b \<le> 0"])
  show "sorted_wrt (\<lambda>a b. cmp a b \<le> 0) (js_sort cmp xs)" by (rule sorted_js_sort [OF assms(1)])
  show "sorted_wrt (\<lambda>a b. cmp a b \<le> 0) (js_sort cmp ys)" by (rule sorted_js_sort [OF assms(1)])
  show "mset (js_sort cmp xs) = mset (js_sort cmp ys)" using assms(2) by simp
  fix x y
  assume "x \<in> set (js_sort cmp xs)" "y \<in> set (js_sort cmp xs)" "cmp x y \<le> 0" "cmp y x \<le> 0"
  with assms(3) [of x y] consistent_tie [OF assms(1), of x y] show "x = y" by auto
qed

lemma codeUnitCompare_sym: "(codeUnitCompare a b < 0) = (codeUnitCompare b a > 0)"
  by (induction a b rule: codeUnitCompare.induct) auto

lemma codeUnitCompare_trans:
  "codeUnitCompare a b \<le> 0 \<Longrightarrow> codeUnitCompare b c \<le> 0 \<Longrightarrow> codeUnitCompare a c \<le> 0"
proof (induction a b arbitrary: c rule: codeUnitCompare.induct)
  case 1 then show ?case by simp
next
  case (2 y ys) then show ?case by (cases c) auto
next
  case (3 x xs) then show ?case by simp
next
  case (4 x xs y ys)
  show ?case
  proof (cases c)
    case Nil
    with 4 show ?thesis by (simp split: if_splits)
  next
    case (Cons z zs)
    from 4(2) have xy: "(of_char x :: nat) \<le> of_char y" by (simp split: if_splits)
    from 4(3) Cons have yz: "(of_char y :: nat) \<le> of_char z" by (simp split: if_splits)
    show ?thesis
    proof (cases "(of_char x :: nat) < of_char z")
      case True
      with Cons show ?thesis by simp
    next
      case False
      with xy yz have "(of_char x :: nat) = of_char y \<and> (of_char y :: nat) = of_char z"
        by linarith
      then have e: "x = y" "y = z" by simp_all
      with 4(2) have a: "codeUnitCompare xs ys \<le> 0" by simp
      from e 4(3) Cons have b: "codeUnitCompare ys zs \<le> 0" by simp
      from e have "\<not> (of_char x :: nat) < of_char y" "\<not> (of_char y :: nat) < of_char x" by simp_all
      from "4.IH" [OF this a b] e Cons show ?thesis by simp
    qed
  qed
qed

lemma consistent_codeUnitCompare: "consistent_comparator codeUnitCompare"
  unfolding consistent_comparator_def
  by (intro conjI allI impI codeUnitCompare_sym) (auto intro: codeUnitCompare_trans)

subsection \<open>Every relation field of a payload is sorted and cut\<close>

lemma sortById_sorted:
  assumes "consistent_comparator lc" and "sortById lc xs = Inr ys"
  shows "sorted_wrt (\<lambda>a b. lc (id_text a) (id_text b) \<le> 0) ys \<or> (length xs \<le> 1 \<and> ys = xs)"
  using assms sorted_js_sort [OF consistent_on_ids [OF assms(1)], of xs]
  by (auto simp: sortById_def split: if_splits)

lemma sortRelationField_ok:
  assumes "consistent_comparator lc" and "sortRelationField lc L v = Inr v'" and "is_relation_array v'"
  shows "sorted_by_id lc v' \<and> array_length v' \<le> L"
proof -
  from assms(3) obtain ys where v': "v' = JArr ys" "ys \<noteq> []" "list_all carries_id ys"
    by (auto simp: is_relation_array_def split: json.splits)
  show ?thesis
  proof (cases v)
    case (JArr xs)
    show ?thesis
    proof (cases "xs = []")
      case True
      with JArr assms(2) v' show ?thesis by (simp add: sortRelationField_def)
    next
      case False
      then obtain x xs' where xs: "xs = x # xs'" by (cases xs) auto
      from assms(2) JArr False obtain i where i: "js_get (hd xs) ''id'' = Inr i"
        by (auto simp: sortRelationField_def bnd_eq_Inr)
      show ?thesis
      proof (cases "truthy i")
        case True
        with assms(2) JArr False i obtain sorted where s: "sortById lc xs = Inr sorted"
          and r: "v' = JArr (take L sorted)"
          by (auto simp: sortRelationField_def bnd_eq_Inr)
        from sortById_sorted [OF assms(1) s] have "sorted_wrt (\<lambda>a b. lc (id_text a) (id_text b) \<le> 0) sorted"
          by (auto intro: sorted_wrt_short)
        with r show ?thesis
          by (simp add: sorted_by_id_def array_length_def sorted_wrt_take)
      next
        case nt: False
        with assms(2) JArr False i have "v' = v" by (auto simp: sortRelationField_def)
        with v' JArr have "carries_id (hd xs)" using False by (cases xs) auto
        then obtain s where "id_of (hd xs) = Some s" "s \<noteq> []"
          by (auto simp: carries_id_def split: option.splits)
        then have "js_get (hd xs) ''id'' = Inr (JStr s)"
          by (cases "hd xs") (auto split: option.splits json.splits)
        with i have "i = JStr s" by simp
        with nt \<open>s \<noteq> []\<close> show ?thesis by simp
      qed
    qed
  qed (use assms(2) v' in \<open>auto simp: sortRelationField_def\<close>)
qed

lemma map_throwing_Inr:
  "map_throwing g xs = Inr ys \<Longrightarrow> list_all2 (\<lambda>a b. g a = Inr b) xs ys"
  by (induction xs arbitrary: ys) (auto split: sum.splits)

lemma forEachValue_values:
  assumes "forEachValue f v = Inr v'"
  shows "list_all2 (\<lambda>a b. f a = Inr b) (values_of v) (values_of v')"
proof (cases v)
  case (JObj kvs)
  with assms obtain kvs' where m: "map_throwing (\<lambda>(k, v). bnd (f v) (\<lambda>v'. Inr (k, v'))) kvs = Inr kvs'"
    and v': "v' = JObj kvs'"
    by (auto simp: bnd_eq_Inr)
  from map_throwing_Inr [OF m]
  have "list_all2 (\<lambda>a b. f (snd a) = Inr (snd b)) kvs kvs'"
    by (rule list_all2_mono) (auto simp: bnd_eq_Inr)
  with JObj v' show ?thesis by (simp add: list_all2_map1 list_all2_map2)
next
  case (JArr xs)
  with assms show ?thesis by (auto simp: bnd_eq_Inr dest: map_throwing_Inr)
qed (use assms in auto)

lemma list_all2_concat_map:
  assumes "list_all2 R xs ys" and "\<And>a b. R a b \<Longrightarrow> list_all2 Q (g a) (g b)"
  shows "list_all2 Q (concat (map g xs)) (concat (map g ys))"
  using assms by (induction rule: list_all2_induct) (auto intro: list_all2_appendI)

lemma forEachValue3_fields:
  assumes "forEachValue (forEachValue (forEachValue f)) s = Inr s'"
  shows "list_all2 (\<lambda>a b. f a = Inr b) (fields_of s) (fields_of s')"
proof -
  have l1: "list_all2 (\<lambda>a b. forEachValue (forEachValue f) a = Inr b) (values_of s) (values_of s')"
    by (rule forEachValue_values [OF assms])
  have l2: "list_all2 (\<lambda>a b. forEachValue f a = Inr b)
              (concat (map values_of (values_of s))) (concat (map values_of (values_of s')))"
    by (rule list_all2_concat_map [OF l1]) (rule forEachValue_values)
  show ?thesis
    unfolding fields_of_def
    by (rule list_all2_concat_map [OF l2]) (rule forEachValue_values)
qed

lemma contractIPLDState_fields:
  assumes "contractIPLDState lc L p = Inr s" and "v' \<in> set (fields_of s)"
  shows "\<exists>v. sortRelationField lc L v = Inr v'"
proof (cases p)
  case None
  with assms show ?thesis by (auto simp: contractIPLDState_def fields_of_def)
next
  case (Some r)
  with assms(1) obtain d state where "data r = Some d" "js_get d ''state'' = Inr state"
    and f: "forEachValue (forEachValue (forEachValue (sortRelationField lc L))) state = Inr s"
    by (auto simp: contractIPLDState_def bnd_eq_Inr split: option.splits)
  from forEachValue3_fields [OF f] assms(2) show ?thesis
    by (auto simp: list_all2_conv_all_nth in_set_conv_nth)
qed

lemma combineIPLDState_single:
  "combineIPLDState lc L [p] = (case contractIPLDState lc L p of Inl e \<Rightarrow> Inl (Raised e) | Inr s \<Rightarrow> Inr s)"
  by (simp add: combineIPLDState_def split: sum.splits)


lemma combine_sorted0:
  "combineIPLDState codeUnitCompare 2 [relationPayload [entityRef ''0xc'', entityRef ''0xb'', entityRef ''0xa'']]
    = Inr (JObj [(''Pool'', JObj [(''0x01'',
             JObj [(''id'', JStr ''0x01''), (''tokens'', JArr [entityRef ''0xa'', entityRef ''0xb''])])])])"
  by code_simp



subsection \<open>Reordering the relation arrays of the input\<close>

lemma carries_id_get:
  assumes "carries_id x"
  shows "\<exists>s. js_get x ''id'' = Inr (JStr s) \<and> s \<noteq> [] \<and> id_of x = Some s"
  using assms
  by (cases x) (auto simp: carries_id_def split: option.splits json.splits)

lemma sortRelationField_relation_array:
  assumes "xs \<noteq> []" and "list_all carries_id xs"
  shows "sortRelationField lc L (JArr xs) =
           bnd (sortById lc xs) (\<lambda>sorted. Inr (JArr (take L sorted)))"
proof -
  from assms have "carries_id (hd xs)" by (cases xs) auto
  from carries_id_get [OF this] obtain s where "js_get (hd xs) ''id'' = Inr (JStr s)" "s \<noteq> []"
    by blast
  with assms(1) show ?thesis by (simp add: sortRelationField_def)
qed

lemma sortById_perm:
  assumes "consistent_comparator lc" and "mset xs = mset ys"
    and "\<And>x y. x \<in> set xs \<Longrightarrow> y \<in> set xs \<Longrightarrow> x \<noteq> y \<Longrightarrow> lc (id_text x) (id_text y) \<noteq> 0"
  shows "sortById lc xs = sortById lc ys"
proof -
  from assms(2) have len: "length xs = length ys" by (metis size_mset)
  from assms(2) have set_eq: "set xs = set ys" by (metis set_mset_mset)
  show ?thesis
  proof (cases "length xs \<le> 1")
    case True
    have "xs = ys"
    proof (cases xs)
      case Nil
      with assms(2) show ?thesis by simp
    next
      case (Cons x xs')
      with True have "xs = [x]" by simp
      with assms(2) show ?thesis by (cases ys) auto
    qed
    then show ?thesis by simp
  next
    case False
    with len set_eq
      js_sort_perm [OF consistent_on_ids [OF assms(1)] assms(2)] assms(3)
    show ?thesis by (simp add: sortById_def list_all_iff)
  qed
qed

lemma sortRelationField_reordered:
  assumes "consistent_comparator lc" and "reordered_field v w" and "distinct_ids lc v"
  shows "sortRelationField lc L v = sortRelationField lc L w"
proof (cases "v = w")
  case True
  then show ?thesis by simp
next
  case False
  with assms(2) obtain xs ys where v: "v = JArr xs" and w: "w = JArr ys"
    and m: "mset xs = mset ys" and r: "is_relation_array v"
    by (auto simp: reordered_field_def split: json.splits)
  from r v have xs: "xs \<noteq> []" "list_all carries_id xs"
    by (simp_all add: is_relation_array_def)
  from m have set_eq: "set xs = set ys" by (metis set_mset_mset)
  from xs m have "ys \<noteq> []" by auto
  moreover from xs(2) set_eq have "list_all carries_id ys" by (simp add: list_all_iff)
  moreover from assms(3) v
  have "sortById lc xs = sortById lc ys"
    by (intro sortById_perm [OF assms(1) m]) (auto simp: distinct_ids_def)
  ultimately show ?thesis
    using xs v w by (simp add: sortRelationField_relation_array)
qed

lemma map_throwing_cong_rel:
  "list_all2 (\<lambda>a b. g a = h b) xs ys \<Longrightarrow> map_throwing g xs = map_throwing h ys"
  by (induction rule: list_all2_induct) (auto split: sum.splits)

lemma forEachValue_rel:
  assumes "rel_values R v w"
    and "\<And>a b. a \<in> set (values_of v) \<Longrightarrow> R a b \<Longrightarrow> f a = f b"
  shows "forEachValue f v = forEachValue f w"
proof (cases v)
  case (JObj kvs)
  with assms(1) obtain kws where w: "w = JObj kws" and k: "map fst kvs = map fst kws"
    and l: "list_all2 R (map snd kvs) (map snd kws)"
    by (auto split: json.splits)
  from k have len: "length kvs = length kws" by (metis length_map)
  have "list_all2 (\<lambda>a b. (case a of (k, v) \<Rightarrow> bnd (f v) (\<lambda>v'. Inr (k, v')))
                        = (case b of (k, v) \<Rightarrow> bnd (f v) (\<lambda>v'. Inr (k, v')))) kvs kws"
  proof (rule list_all2_all_nthI [OF len])
    fix n
    assume n: "n < length kvs"
    from k n len have fk: "fst (kvs ! n) = fst (kws ! n)"
      by (metis nth_map)
    from l n len have "R (snd (kvs ! n)) (snd (kws ! n))"
      by (auto simp: list_all2_conv_all_nth)
    moreover from n JObj have "snd (kvs ! n) \<in> set (values_of v)" by simp
    ultimately have "f (snd (kvs ! n)) = f (snd (kws ! n))" by (rule assms(2) [rotated])
    with fk show "(case kvs ! n of (k, v) \<Rightarrow> bnd (f v) (\<lambda>v'. Inr (k, v')))
                        = (case kws ! n of (k, v) \<Rightarrow> bnd (f v) (\<lambda>v'. Inr (k, v')))"
      by (cases "kvs ! n"; cases "kws ! n") simp
  qed
  from map_throwing_cong_rel [OF this] JObj w show ?thesis by simp
next
  case (JArr xs)
  with assms(1) obtain ys where w: "w = JArr ys" and l: "list_all2 R xs ys"
    by (auto split: json.splits)
  have "list_all2 (\<lambda>a b. f a = f b) xs ys"
    using l JArr assms(2) by (auto simp: list_all2_conv_all_nth)
  from map_throwing_cong_rel [OF this] JArr w show ?thesis by simp
qed (use assms(1) in auto)

lemma in_fields_of:
  "a \<in> set (values_of s) \<Longrightarrow> b \<in> set (values_of a) \<Longrightarrow> c \<in> set (values_of b) \<Longrightarrow>
     c \<in> set (fields_of s)"
  by (auto simp: fields_of_def)

lemma forEachValue3_reordered:
  assumes "consistent_comparator lc" and "reordered_state s t"
    and "list_all (distinct_ids lc) (fields_of s)"
  shows "forEachValue (forEachValue (forEachValue (sortRelationField lc L))) s
       = forEachValue (forEachValue (forEachValue (sortRelationField lc L))) t"
proof (rule forEachValue_rel [OF assms(2) [unfolded reordered_state_def]])
  fix a b
  assume a: "a \<in> set (values_of s)" and ab: "rel_values (rel_values reordered_field) a b"
  show "forEachValue (forEachValue (sortRelationField lc L)) a
      = forEachValue (forEachValue (sortRelationField lc L)) b"
  proof (rule forEachValue_rel [OF ab])
    fix a' b'
    assume a': "a' \<in> set (values_of a)" and ab': "rel_values reordered_field a' b'"
    show "forEachValue (sortRelationField lc L) a' = forEachValue (sortRelationField lc L) b'"
    proof (rule forEachValue_rel [OF ab'])
      fix v w
      assume v: "v \<in> set (values_of a')" and vw: "reordered_field v w"
      from in_fields_of [OF a a' v] assms(3) have "distinct_ids lc v"
        by (simp add: list_all_iff)
      from sortRelationField_reordered [OF assms(1) vw this]
      show "sortRelationField lc L v = sortRelationField lc L w" .
    qed
  qed
qed

lemma contractIPLDState_reordered:
  assumes "consistent_comparator lc" and "reordered_payload p q" and "payload_distinct_ids lc p"
  shows "contractIPLDState lc L p = contractIPLDState lc L q"
  using assms(2,3) forEachValue3_reordered [OF assms(1)]
  by (auto simp: reordered_payload_def payload_distinct_ids_def contractIPLDState_def
      split: option.splits sum.splits)




end
